theory Spec2Isabelle
  imports Complex_Main "HOL-Library.Multiset"
begin

section \<open>Conventions of the embedding\<close>

text \<open>
  The Go packages \<^verbatim>\<open>timeseries\<close>, \<^verbatim>\<open>ml\<close> and \<^verbatim>\<open>anomaly\<close> are embedded function by
  function.

  \<^item> A Go \<^verbatim>\<open>float64\<close> is idealised as a \<^typ>\<open>real\<close>: rounding, signed zeros and NaN
    operands are not modelled. The one infinite value the code writes down itself,
    \<^verbatim>\<open>math.Inf(1)\<close>, and the quotients that are stored in an anomaly's severity are
    values of the type \<open>float64\<close> below, which has the infinities and NaN.
  \<^item> A Go \<^verbatim>\<open>int\<close> is an \<^typ>\<open>int\<close>; lengths are converted with \<^term>\<open>int\<close> as Go's
    \<^verbatim>\<open>len\<close> does. The products the code forms (\<^verbatim>\<open>i * len(points)\<close>) are bounded by the
    square of a slice length and do not wrap.
  \<^item> A run-time panic (index out of range, slice bounds out of range, negative
    \<^verbatim>\<open>make\<close> length) is the value \<^term>\<open>None\<close> of an option type; a Go \<^verbatim>\<open>error\<close>
    result is a \<^typ>\<open>string option\<close>, \<^term>\<open>None\<close> for \<^verbatim>\<open>nil\<close>.
  \<^item> \<^verbatim>\<open>time.Time\<close> is an \<^typ>\<open>int\<close> (an instant on a linear time line), and
    \<^verbatim>\<open>time.Now()\<close> is an extra argument \<open>now\<close> of the function that reads the clock.
  \<^item> The mutexes of the store are not modelled: every operation is one atomic step.
\<close>

section \<open>Package timeseries\<close>

record DataPoint =
  Timestamp :: int
  Value :: real
  Labels :: "string \<rightharpoonup> string"

record TimeSeries =
  SeriesServiceName :: string
  SeriesMetric :: string
  SeriesPoints :: "DataPoint list"

record Storage =
  series :: "string \<rightharpoonup> TimeSeries"

definition NewStorage :: Storage where
  "NewStorage = \<lparr>series = Map.empty\<rparr>"

definition seriesKey :: "string \<Rightarrow> string \<Rightarrow> string" where
  "seriesKey serviceName metric = serviceName @ '':'' @ metric"

definition Store :: "Storage \<Rightarrow> string \<Rightarrow> string \<Rightarrow> real \<Rightarrow> (string \<rightharpoonup> string) \<Rightarrow> int \<Rightarrow> Storage" where
  "Store s serviceName metric v labels now =
     (let key = seriesKey serviceName metric;
          ts = (case series s key of
                  None \<Rightarrow> \<lparr>SeriesServiceName = serviceName, SeriesMetric = metric, SeriesPoints = []\<rparr>
                | Some t \<Rightarrow> t);
          point = \<lparr>Timestamp = now, Value = v, Labels = labels\<rparr>
      in s\<lparr>series := (series s)(key \<mapsto> ts\<lparr>SeriesPoints := SeriesPoints ts @ [point]\<rparr>)\<rparr>)"

definition GetSeries :: "Storage \<Rightarrow> string \<Rightarrow> string \<Rightarrow> TimeSeries option" where
  "GetSeries s serviceName metric = series s (seriesKey serviceName metric)"

text \<open>The loop of \<^verbatim>\<open>GetTimeRange\<close> appends every point that passes
  \<^verbatim>\<open>point.Timestamp.After(start) && point.Timestamp.Before(end)\<close> to the result.\<close>

definition GetTimeRange :: "Storage \<Rightarrow> string \<Rightarrow> string \<Rightarrow> int \<Rightarrow> int \<Rightarrow> DataPoint list" where
  "GetTimeRange s serviceName metric start endt =
     (case GetSeries s serviceName metric of
        None \<Rightarrow> []
      | Some ts \<Rightarrow>
          fold (\<lambda>point result.
                  if start < Timestamp point \<and> Timestamp point < endt
                  then result @ [point] else result)
               (SeriesPoints ts) [])"

text \<open>\<^verbatim>\<open>GetLatestN\<close> returns the whole slice when \<^verbatim>\<open>len(points) <= n\<close>, and otherwise
  the slice expression \<^verbatim>\<open>points[len(points)-n:]\<close>, which panics when its lower bound
  exceeds the length, that is when \<open>n\<close> is negative.\<close>

definition GetLatestN :: "Storage \<Rightarrow> string \<Rightarrow> string \<Rightarrow> int \<Rightarrow> DataPoint list option" where
  "GetLatestN s serviceName metric n =
     (case GetSeries s serviceName metric of
        None \<Rightarrow> Some []
      | Some ts \<Rightarrow>
          (let points = SeriesPoints ts in
           if int (length points) \<le> n then Some points
           else if int (length points) - n > int (length points) then None
           else Some (drop (nat (int (length points) - n)) points)))"

text \<open>A store built by a sequence of \<^verbatim>\<open>Store\<close> calls, each with the clock reading of
  its call.\<close>

record StoreCall =
  callService :: string
  callMetric :: string
  callValue :: real
  callLabels :: "string \<rightharpoonup> string"
  callNow :: int

definition applyCall :: "Storage \<Rightarrow> StoreCall \<Rightarrow> Storage" where
  "applyCall s c = Store s (callService c) (callMetric c) (callValue c) (callLabels c) (callNow c)"

definition built :: "StoreCall list \<Rightarrow> Storage" where
  "built calls = foldl applyCall NewStorage calls"

definition pointOf :: "StoreCall \<Rightarrow> DataPoint" where
  "pointOf c = \<lparr>Timestamp = callNow c, Value = callValue c, Labels = callLabels c\<rparr>"

definition appended :: "StoreCall list \<Rightarrow> string \<Rightarrow> string \<Rightarrow> DataPoint list" where
  "appended calls serviceName metric =
     map pointOf (filter (\<lambda>c. seriesKey (callService c) (callMetric c) = seriesKey serviceName metric) calls)"

text \<open>The points stored under a composite key, empty when the key is absent.\<close>

definition pointsAt :: "Storage \<Rightarrow> string \<Rightarrow> DataPoint list" where
  "pointsAt s k = (case series s k of None \<Rightarrow> [] | Some t \<Rightarrow> SeriesPoints t)"

section \<open>Package ml\<close>

subsection \<open>Values of type float64 that may be infinite\<close>

text \<open>The sentinel \<^verbatim>\<open>math.Inf(1)\<close> and the severity quotients. A zero divisor is taken
  as positive zero.\<close>

datatype float64 = Num real | PosInf | NegInf | NaN

text \<open>\<^verbatim>\<open>dist < minDist\<close>, for a finite \<open>dist\<close>.\<close>

fun lessThan64 :: "real \<Rightarrow> float64 \<Rightarrow> bool" where
  "lessThan64 d (Num m) = (d < m)"
| "lessThan64 d PosInf = True"
| "lessThan64 d NegInf = False"
| "lessThan64 d NaN = False"

text \<open>\<^verbatim>\<open>minDistance > threshold\<close>, for a finite \<open>threshold\<close>.\<close>

fun greaterThan64 :: "float64 \<Rightarrow> real \<Rightarrow> bool" where
  "greaterThan64 (Num m) t = (m > t)"
| "greaterThan64 PosInf t = True"
| "greaterThan64 NegInf t = False"
| "greaterThan64 NaN t = False"

text \<open>\<^verbatim>\<open>x / y\<close>, for a finite divisor \<open>y\<close>.\<close>

fun div64 :: "float64 \<Rightarrow> real \<Rightarrow> float64" where
  "div64 (Num x) y =
     (if y \<noteq> 0 then Num (x / y)
      else if 0 < x then PosInf else if x < 0 then NegInf else NaN)"
| "div64 PosInf y = (if y < 0 then NegInf else PosInf)"
| "div64 NegInf y = (if y < 0 then PosInf else NegInf)"
| "div64 NaN y = NaN"

subsection \<open>Iteration that may panic\<close>

fun mapOption :: "('a \<Rightarrow> 'b option) \<Rightarrow> 'a list \<Rightarrow> 'b list option" where
  "mapOption f [] = Some []"
| "mapOption f (x # xs) =
     (case f x of
        None \<Rightarrow> None
      | Some y \<Rightarrow> (case mapOption f xs of None \<Rightarrow> None | Some ys \<Rightarrow> Some (y # ys)))"

fun foldOption :: "('s \<Rightarrow> 'a \<Rightarrow> 's option) \<Rightarrow> 's \<Rightarrow> 'a list \<Rightarrow> 's option" where
  "foldOption f s [] = Some s"
| "foldOption f s (x # xs) = (case f s x of None \<Rightarrow> None | Some s' \<Rightarrow> foldOption f s' xs)"

subsection \<open>Data\<close>

record ClusterPoint =
  Features :: "real list"
  Label :: string
  Original :: "DataPoint option"

record Cluster =
  Centroid :: "real list"
  Points :: "ClusterPoint list"

record KMeansConfig =
  K :: int
  MaxIter :: int
  Tolerance :: real
  FeatureNames :: "string list"

subsection \<open>Window statistics\<close>

definition calculateMean :: "DataPoint list \<Rightarrow> real" where
  "calculateMean points =
     (if length points = 0 then 0
      else fold (\<lambda>p s. s + Value p) points 0 / real (length points))"

definition calculateStdDev :: "DataPoint list \<Rightarrow> real" where
  "calculateStdDev points =
     (if length points \<le> 1 then 0
      else (let mean = calculateMean points;
                sumSquaredDiff = fold (\<lambda>p s. s + (Value p - mean) * (Value p - mean)) points 0
            in sqrt (sumSquaredDiff / real (length points - 1))))"

text \<open>The quotient of \<^verbatim>\<open>calculateTrend\<close> has no zero guard in the source; for a zero
  first value Go yields an infinity or NaN where the acc division of \<^typ>\<open>real\<close>
  yields 0. On a window whose first value is 0 the feature vector of the model, and
  with it the distance to a baseline, is not the one of the code. No property below
  depends on the value of a feature.\<close>

definition calculateTrend :: "DataPoint list \<Rightarrow> real" where
  "calculateTrend points =
     (if length points < 2 then 0
      else (let firstValue = Value (points ! 0);
                lastValue = Value (points ! (length points - 1))
            in (lastValue - firstValue) / firstValue))"

text \<open>\<^verbatim>\<open>changes\<close> is allocated zeroed; entry \<open>i - 1\<close> is written only when
  \<^verbatim>\<open>points[i-1].Value != 0\<close>.\<close>

definition calculateVolatility :: "DataPoint list \<Rightarrow> real" where
  "calculateVolatility points =
     (if length points < 2 then 0
      else (let changes = map (\<lambda>i. if Value (points ! (i - 1)) \<noteq> 0
                                     then (Value (points ! i) - Value (points ! (i - 1))) / Value (points ! (i - 1))
                                     else 0) [1..<length points];
                mean = fold (\<lambda>change m. m + change) changes 0 / real (length changes);
                variance = fold (\<lambda>change v. v + (change - mean) * (change - mean)) changes 0
                             / real (length changes)
            in sqrt variance))"

text \<open>\<^verbatim>\<open>ExtractFeatures\<close>: for \<open>i\<close> from \<open>windowSize\<close> below \<open>len(points)\<close> the window
  is \<^verbatim>\<open>points[i-windowSize : i]\<close>. With a negative window size the first slice
  expression is \<^verbatim>\<open>points[0 : windowSize]\<close>, a panic.\<close>

definition windowFeature :: "DataPoint list \<Rightarrow> nat \<Rightarrow> nat \<Rightarrow> ClusterPoint" where
  "windowFeature points w i =
     (let window = take w (drop (i - w) points)
      in \<lparr>Features = [calculateMean window, calculateStdDev window,
                      calculateTrend window, calculateVolatility window],
          Label = [],
          Original = Some (points ! i)\<rparr>)"

definition ExtractFeatures :: "DataPoint list \<Rightarrow> int \<Rightarrow> ClusterPoint list option" where
  "ExtractFeatures points windowSize =
     (if windowSize < 0 then None
      else Some (map (windowFeature points (nat windowSize)) [nat windowSize..<length points]))"

subsection \<open>K-means\<close>

text \<open>\<^verbatim>\<open>for i := range a { diff := a[i] - b[i]; sum += diff * diff }\<close> reads \<open>b\<close> at
  every index of \<open>a\<close>, so it panics when \<open>b\<close> is shorter.\<close>

definition euclideanDistance :: "real list \<Rightarrow> real list \<Rightarrow> real option" where
  "euclideanDistance a b =
     (if length b < length a then None
      else Some (sqrt (fold (\<lambda>i s. s + (a ! i - b ! i) * (a ! i - b ! i)) [0..<length a] 0)))"

text \<open>Seeding: cluster \<open>i\<close> copies the features of \<^verbatim>\<open>points[i * len(points) / K]\<close>.\<close>

definition seedCluster :: "KMeansConfig \<Rightarrow> ClusterPoint list \<Rightarrow> nat \<Rightarrow> Cluster option" where
  "seedCluster cfg points i =
     (let pointIdx = int i * int (length points) div K cfg
      in if 0 \<le> pointIdx \<and> pointIdx < int (length points)
         then Some \<lparr>Centroid = Features (points ! nat pointIdx), Points = []\<rparr>
         else None)"

definition initializeClusters :: "KMeansConfig \<Rightarrow> ClusterPoint list \<Rightarrow> Cluster list option" where
  "initializeClusters cfg points =
     (if K cfg < 0 then None
      else mapOption (seedCluster cfg points) [0..<nat (K cfg)])"

text \<open>The inner loop of \<^verbatim>\<open>assignPointsToClusters\<close>: a scan with the running minimum
  \<open>minDist\<close> (started at \<^verbatim>\<open>math.Inf(1)\<close>) and its index \<open>clusterIdx\<close> (started at 0).\<close>

fun nearestCluster :: "real list \<Rightarrow> Cluster list \<Rightarrow> nat \<Rightarrow> float64 \<Rightarrow> nat \<Rightarrow> nat option" where
  "nearestCluster f [] i minDist clusterIdx = Some clusterIdx"
| "nearestCluster f (cluster # rest) i minDist clusterIdx =
     (case euclideanDistance f (Centroid cluster) of
        None \<Rightarrow> None
      | Some dst \<Rightarrow>
          if lessThan64 dst minDist
          then nearestCluster f rest (Suc i) (Num dst) i
          else nearestCluster f rest (Suc i) minDist clusterIdx)"

text \<open>\<^verbatim>\<open>clusters[clusterIdx].Points = append(clusters[clusterIdx].Points, point)\<close>
  panics when there is no cluster at \<open>clusterIdx\<close>.\<close>

definition assignPoint :: "Cluster list \<Rightarrow> ClusterPoint \<Rightarrow> Cluster list option" where
  "assignPoint clusters point =
     (case nearestCluster (Features point) clusters 0 PosInf 0 of
        None \<Rightarrow> None
      | Some clusterIdx \<Rightarrow>
          if clusterIdx < length clusters
          then Some (clusters[clusterIdx :=
                 (clusters ! clusterIdx)\<lparr>Points := Points (clusters ! clusterIdx) @ [point]\<rparr>])
          else None)"

definition assignPointsToClusters :: "ClusterPoint list \<Rightarrow> Cluster list \<Rightarrow> Cluster list option" where
  "assignPointsToClusters points clusters =
     foldOption assignPoint (map (\<lambda>c. c\<lparr>Points := []\<rparr>) clusters) points"

text \<open>\<^verbatim>\<open>sum += point.Features[j]\<close> over the points of one cluster.\<close>

fun sumFeature :: "nat \<Rightarrow> ClusterPoint list \<Rightarrow> real \<Rightarrow> real option" where
  "sumFeature j [] acc = Some acc"
| "sumFeature j (point # rest) acc =
     (if j < length (Features point) then sumFeature j rest (acc + Features point ! j) else None)"

definition updateCentroid :: "Cluster \<Rightarrow> Cluster option" where
  "updateCentroid c =
     (if length (Points c) = 0 then Some c
      else (case mapOption (\<lambda>j. case sumFeature j (Points c) 0 of
                                   None \<Rightarrow> None
                                 | Some acc \<Rightarrow> Some (acc / real (length (Points c))))
                           [0..<length (Centroid c)] of
              None \<Rightarrow> None
            | Some centroid \<Rightarrow> Some (c\<lparr>Centroid := centroid\<rparr>)))"

definition updateCentroids :: "Cluster list \<Rightarrow> Cluster list option" where
  "updateCentroids clusters = mapOption updateCentroid clusters"

definition copyCentroids :: "Cluster list \<Rightarrow> real list list" where
  "copyCentroids clusters = map Centroid clusters"

text \<open>\<^verbatim>\<open>hasConverged\<close> reads \<^verbatim>\<open>oldCentroids[i]\<close> for the index of every cluster.\<close>

fun hasConverged :: "real \<Rightarrow> real list list \<Rightarrow> Cluster list \<Rightarrow> bool option" where
  "hasConverged tol old [] = Some True"
| "hasConverged tol [] (cluster # rest) = None"
| "hasConverged tol (oldCentroid # old) (cluster # rest) =
     (case euclideanDistance oldCentroid (Centroid cluster) of
        None \<Rightarrow> None
      | Some dst \<Rightarrow> if dst > tol then Some False else hasConverged tol old rest)"

text \<open>The loop of \<^verbatim>\<open>KMeans\<close>, with the number of iterations that remain.\<close>

fun iterate :: "KMeansConfig \<Rightarrow> ClusterPoint list \<Rightarrow> nat \<Rightarrow> Cluster list \<Rightarrow> Cluster list option" where
  "iterate cfg points 0 clusters = Some clusters"
| "iterate cfg points (Suc n) clusters =
     (let oldCentroids = copyCentroids clusters in
      case assignPointsToClusters points clusters of
        None \<Rightarrow> None
      | Some assigned \<Rightarrow>
          (case updateCentroids assigned of
             None \<Rightarrow> None
           | Some updated \<Rightarrow>
               (case hasConverged (Tolerance cfg) oldCentroids updated of
                  None \<Rightarrow> None
                | Some converged \<Rightarrow>
                    if converged then Some updated else iterate cfg points n updated)))"

text \<open>\<^verbatim>\<open>KMeans\<close> returns \<^verbatim>\<open>nil\<close>, the empty list, when \<^verbatim>\<open>len(points) < K\<close>.\<close>

definition KMeans :: "KMeansConfig \<Rightarrow> ClusterPoint list \<Rightarrow> Cluster list option" where
  "KMeans cfg points =
     (if int (length points) < K cfg then Some []
      else (case initializeClusters cfg points of
              None \<Rightarrow> None
            | Some clusters \<Rightarrow> iterate cfg points (nat (MaxIter cfg)) clusters))"

section \<open>Package anomaly\<close>

subsection \<open>Data\<close>

definition TrafficSpike :: string where "TrafficSpike = ''traffic_spike''"
definition ErrorRateHigh :: string where "ErrorRateHigh = ''error_rate_high''"
definition LatencyAnomaly :: string where "LatencyAnomaly = ''latency_anomaly''"
definition CircuitBreaker :: string where "CircuitBreaker = ''circuit_breaker''"
definition RetryStorm :: string where "RetryStorm = ''retry_storm''"
definition TimeoutAnomaly :: string where "TimeoutAnomaly = ''timeout_anomaly''"

text \<open>\<^verbatim>\<open>Description\<close> is kept as the format string of \<^verbatim>\<open>fmt.Sprintf\<close> with its
  argument, not rendered.\<close>

record Anomaly =
  Type :: string
  ServiceName :: string
  Namespace :: string
  Severity :: float64
  Description :: "string \<times> float64"
  AnomalyTimestamp :: int
  Metrics :: "string \<rightharpoonup> float64"
  AnomalyLabels :: "string \<rightharpoonup> string"

record DetectionConfig =
  TrafficSpikeThreshold :: real
  ErrorRateThreshold :: real
  LatencyThreshold :: int
  RetryThreshold :: int
  TimeoutThreshold :: int
  WindowSize :: int
  SensitivityLevel :: real

record Detector =
  config :: DetectionConfig
  clusteringEngine :: KMeansConfig
  baselines :: "string \<rightharpoonup> Cluster list"

definition NewDetector :: "DetectionConfig \<Rightarrow> KMeansConfig \<Rightarrow> Detector" where
  "NewDetector cfg engine = \<lparr>config = cfg, clusteringEngine = engine, baselines = Map.empty\<rparr>"

subsection \<open>Learning\<close>

text \<open>The result is the detector after the call and the returned \<^verbatim>\<open>error\<close>.\<close>

definition LearnBaseline :: "Detector \<Rightarrow> string \<Rightarrow> DataPoint list \<Rightarrow> (Detector \<times> string option) option" where
  "LearnBaseline d serviceName points =
     (if int (length points) < WindowSize (config d)
      then Some (d, Some ''insufficient data points for baseline learning'')
      else (case ExtractFeatures points (WindowSize (config d)) of
              None \<Rightarrow> None
            | Some features \<Rightarrow>
                (case KMeans (clusteringEngine d) features of
                   None \<Rightarrow> None
                 | Some clusters \<Rightarrow>
                     Some (d\<lparr>baselines := (baselines d)(serviceName \<mapsto> clusters)\<rparr>, None))))"

subsection \<open>Static rules\<close>

definition detectorMean :: "DataPoint list \<Rightarrow> real" where
  "detectorMean points =
     (if length points = 0 then 0
      else fold (\<lambda>p s. s + Value p) points 0 / real (length points))"

definition isTrafficSpike :: "DetectionConfig \<Rightarrow> DataPoint list \<Rightarrow> bool" where
  "isTrafficSpike cfg points =
     (if length points < 3 then False
      else (let recent = drop (length points - 3) points;
                baseline = detectorMean (take (length points - 3) points);
                currentRate = detectorMean recent
            in currentRate > baseline * TrafficSpikeThreshold cfg))"

definition isHighErrorRate :: "DetectionConfig \<Rightarrow> DataPoint list \<Rightarrow> bool" where
  "isHighErrorRate cfg points =
     (if length points = 0 then False
      else Value (points ! (length points - 1)) > ErrorRateThreshold cfg)"

definition calculateTrafficSpikeSeverity :: "DataPoint list \<Rightarrow> real" where
  "calculateTrafficSpikeSeverity points =
     (if length points < 3 then 1
      else (let recent = drop (length points - 3) points;
                baseline = detectorMean (take (length points - 3) points);
                currentRate = detectorMean recent
            in if baseline = 0 then 1 else currentRate / baseline))"

definition trafficSpikeAnomaly :: "string \<Rightarrow> DataPoint list \<Rightarrow> Anomaly" where
  "trafficSpikeAnomaly serviceName points =
     (let latest = points ! (length points - 1)
      in \<lparr>Type = TrafficSpike,
          ServiceName = serviceName,
          Namespace = [],
          Severity = Num (calculateTrafficSpikeSeverity points),
          Description = (''Traffic spike detected: %.2f requests'', Num (Value latest)),
          AnomalyTimestamp = Timestamp latest,
          Metrics = [''current_traffic'' \<mapsto> Num (Value latest)],
          AnomalyLabels = Map.empty\<rparr>)"

definition errorRateAnomaly :: "DetectionConfig \<Rightarrow> string \<Rightarrow> DataPoint list \<Rightarrow> Anomaly" where
  "errorRateAnomaly cfg serviceName points =
     (let latest = points ! (length points - 1)
      in \<lparr>Type = ErrorRateHigh,
          ServiceName = serviceName,
          Namespace = [],
          Severity = div64 (Num (Value latest)) (ErrorRateThreshold cfg),
          Description = (''High error rate: %.2f%%'', Num (Value latest * 100)),
          AnomalyTimestamp = Timestamp latest,
          Metrics = [''error_rate'' \<mapsto> Num (Value latest)],
          AnomalyLabels = Map.empty\<rparr>)"

definition detectStaticAnomalies :: "DetectionConfig \<Rightarrow> string \<Rightarrow> DataPoint list \<Rightarrow> Anomaly list" where
  "detectStaticAnomalies cfg serviceName points =
     (if length points < 2 then []
      else (if isTrafficSpike cfg points then [trafficSpikeAnomaly serviceName points] else [])
         @ (if isHighErrorRate cfg points then [errorRateAnomaly cfg serviceName points] else []))"

subsection \<open>Distance to the baseline\<close>

text \<open>The detector has its own copy of the distance function.\<close>

definition detectorDistance :: "real list \<Rightarrow> real list \<Rightarrow> real option" where
  "detectorDistance a b =
     (if length b < length a then None
      else Some (sqrt (fold (\<lambda>i s. s + (a ! i - b ! i) * (a ! i - b ! i)) [0..<length a] 0)))"

text \<open>\<^verbatim>\<open>variance += distance * distance\<close> over the points of one cluster.\<close>

fun varianceLoop :: "real list \<Rightarrow> ClusterPoint list \<Rightarrow> real \<Rightarrow> real option" where
  "varianceLoop centroid [] variance = Some variance"
| "varianceLoop centroid (point # rest) variance =
     (case detectorDistance (Features point) centroid of
        None \<Rightarrow> None
      | Some distance \<Rightarrow> varianceLoop centroid rest (variance + distance * distance))"

text \<open>The loop over the clusters, with the accumulators \<open>totalVariance\<close> and
  \<open>totalPoints\<close>.\<close>

fun thresholdLoop :: "Cluster list \<Rightarrow> real \<Rightarrow> nat \<Rightarrow> (real \<times> nat) option" where
  "thresholdLoop [] totalVariance totalPoints = Some (totalVariance, totalPoints)"
| "thresholdLoop (cluster # rest) totalVariance totalPoints =
     (if length (Points cluster) = 0 then thresholdLoop rest totalVariance totalPoints
      else (case varianceLoop (Centroid cluster) (Points cluster) 0 of
              None \<Rightarrow> None
            | Some variance \<Rightarrow>
                (let variance' = variance / real (length (Points cluster))
                 in thresholdLoop rest
                      (totalVariance + variance' * real (length (Points cluster)))
                      (totalPoints + length (Points cluster)))))"

definition calculateDynamicThreshold :: "DetectionConfig \<Rightarrow> Cluster list \<Rightarrow> real option" where
  "calculateDynamicThreshold cfg clusters =
     (if length clusters = 0 then Some 1
      else (case thresholdLoop clusters 0 0 of
              None \<Rightarrow> None
            | Some (totalVariance, totalPoints) \<Rightarrow>
                if totalPoints = 0 then Some 1
                else (let avgVariance = totalVariance / real totalPoints
                      in Some (sqrt avgVariance * SensitivityLevel cfg))))"

text \<open>The scan for the nearest centroid, started at \<^verbatim>\<open>math.Inf(1)\<close>.\<close>

fun minDistanceLoop :: "real list \<Rightarrow> Cluster list \<Rightarrow> float64 \<Rightarrow> float64 option" where
  "minDistanceLoop f [] minDistance = Some minDistance"
| "minDistanceLoop f (cluster # rest) minDistance =
     (case detectorDistance f (Centroid cluster) of
        None \<Rightarrow> None
      | Some distance \<Rightarrow>
          if lessThan64 distance minDistance
          then minDistanceLoop f rest (Num distance)
          else minDistanceLoop f rest minDistance)"

definition behavioralAnomaly :: "string \<Rightarrow> float64 \<Rightarrow> real \<Rightarrow> int \<Rightarrow> Anomaly" where
  "behavioralAnomaly serviceName minDistance threshold now =
     \<lparr>Type = ''behavioral_anomaly'',
      ServiceName = serviceName,
      Namespace = [],
      Severity = div64 minDistance threshold,
      Description = (''Behavioral anomaly detected (distance: %.2f)'', minDistance),
      AnomalyTimestamp = now,
      Metrics = [''anomaly_distance'' \<mapsto> minDistance],
      AnomalyLabels = Map.empty\<rparr>"

definition detectMLAnomalies ::
  "Detector \<Rightarrow> string \<Rightarrow> DataPoint list \<Rightarrow> Cluster list \<Rightarrow> int \<Rightarrow> Anomaly list option" where
  "detectMLAnomalies d serviceName points baseline now =
     (if int (length points) < WindowSize (config d) then Some []
      else (case ExtractFeatures points (WindowSize (config d)) of
              None \<Rightarrow> None
            | Some features \<Rightarrow>
                if length features = 0 then Some []
                else (let latest = features ! (length features - 1) in
                      case minDistanceLoop (Features latest) baseline PosInf of
                        None \<Rightarrow> None
                      | Some minDistance \<Rightarrow>
                          (case calculateDynamicThreshold (config d) baseline of
                             None \<Rightarrow> None
                           | Some threshold \<Rightarrow>
                               if greaterThan64 minDistance threshold
                               then Some [behavioralAnomaly serviceName minDistance threshold now]
                               else Some []))))"

text \<open>The result is the anomalies and the returned \<^verbatim>\<open>error\<close>.\<close>

definition DetectAnomalies ::
  "Detector \<Rightarrow> string \<Rightarrow> DataPoint list \<Rightarrow> int \<Rightarrow> (Anomaly list \<times> string option) option" where
  "DetectAnomalies d serviceName recentPoints now =
     (let staticAnomalies = detectStaticAnomalies (config d) serviceName recentPoints in
      case baselines d serviceName of
        None \<Rightarrow> Some (staticAnomalies, None)
      | Some clusters \<Rightarrow>
          (case detectMLAnomalies d serviceName recentPoints clusters now of
             None \<Rightarrow> None
           | Some mlAnomalies \<Rightarrow> Some (staticAnomalies @ mlAnomalies, None)))"

text \<open>The detectors that calls of \<^verbatim>\<open>LearnBaseline\<close> can produce from a new one.\<close>

inductive reachable :: "Detector \<Rightarrow> bool" where
  new: "reachable (NewDetector cfg engine)"
| learn: "reachable d \<Longrightarrow> LearnBaseline d serviceName points = Some (d', err) \<Longrightarrow> reachable d'"

section \<open>The statistics in the words of the specification\<close>

text \<open>The relative deltas of consecutive values, a delta with a zero denominator
  being 0.\<close>

definition relativeDeltas :: "real list \<Rightarrow> real list" where
  "relativeDeltas v =
     map (\<lambda>i. if v ! (i - 1) = 0 then 0 else (v ! i - v ! (i - 1)) / v ! (i - 1)) [1..<length v]"

definition listMean :: "real list \<Rightarrow> real" where
  "listMean xs = sum_list xs / real (length xs)"

text \<open>Sample standard deviation (denominator \<open>n - 1\<close>), 0 for fewer than two values.\<close>

definition sampleStdDev :: "real list \<Rightarrow> real" where
  "sampleStdDev xs =
     (if length xs < 2 then 0
      else sqrt ((\<Sum>x\<leftarrow>xs. (x - listMean xs)\<^sup>2) / real (length xs - 1)))"

text \<open>Population standard deviation (denominator \<open>n\<close>), 0 for no value.\<close>

definition populationStdDev :: "real list \<Rightarrow> real" where
  "populationStdDev xs =
     (if xs = [] then 0
      else sqrt ((\<Sum>x\<leftarrow>xs. (x - listMean xs)\<^sup>2) / real (length xs)))"

text \<open>Squared Euclidean distance, the intra-cluster variance (mean squared distance of
  the assigned points to the centroid), the variance pooled over the clusters that
  have a point, weighted by size, and the threshold.\<close>

definition squaredDistance :: "real list \<Rightarrow> real list \<Rightarrow> real" where
  "squaredDistance a b = (\<Sum>i\<leftarrow>[0..<length a]. (a ! i - b ! i)\<^sup>2)"

definition intraClusterVariance :: "Cluster \<Rightarrow> real" where
  "intraClusterVariance c =
     (\<Sum>p\<leftarrow>Points c. squaredDistance (Features p) (Centroid c)) / real (length (Points c))"

definition totalAssigned :: "Cluster list \<Rightarrow> nat" where
  "totalAssigned clusters = (\<Sum>c\<leftarrow>clusters. length (Points c))"

text \<open>The variances of the clusters that have a point, each weighted by the size of
  its cluster, summed; the pooled variance is their size-weighted mean.\<close>

definition weightedVariances :: "Cluster list \<Rightarrow> real" where
  "weightedVariances clusters =
     (\<Sum>c\<leftarrow>filter (\<lambda>c. Points c \<noteq> []) clusters. real (length (Points c)) * intraClusterVariance c)"

definition pooledVariance :: "Cluster list \<Rightarrow> real" where
  "pooledVariance clusters = weightedVariances clusters / real (totalAssigned clusters)"

definition dynamicThreshold :: "DetectionConfig \<Rightarrow> Cluster list \<Rightarrow> real" where
  "dynamicThreshold cfg clusters =
     (if totalAssigned clusters = 0 then 1
      else sqrt (pooledVariance clusters) * SensitivityLevel cfg)"

text \<open>Every assigned point of a cluster has the dimension of its centroid.\<close>

definition wellFormed :: "Cluster list \<Rightarrow> bool" where
  "wellFormed clusters =
     list_all (\<lambda>c. list_all (\<lambda>p. length (Features p) = length (Centroid c)) (Points c)) clusters"

text \<open>Every centroid has dimension \<open>d\<close>.\<close>

definition uniform :: "nat \<Rightarrow> Cluster list \<Rightarrow> bool" where
  "uniform d cs = (\<forall>c\<in>set cs. length (Centroid c) = d)"

text \<open>The initial cluster \<open>i\<close>: seeded from the feature vector at index
  \<open>i * len(points) / K\<close>, with no assigned point.\<close>

definition seed :: "KMeansConfig \<Rightarrow> ClusterPoint list \<Rightarrow> nat \<Rightarrow> Cluster" where
  "seed cfg points i =
     \<lparr>Centroid = Features (points ! nat (int i * int (length points) div K cfg)), Points = []\<rparr>"

text \<open>Every assigned point has dimension \<open>d\<close>.\<close>

definition assignedDim :: "nat \<Rightarrow> Cluster list \<Rightarrow> bool" where
  "assignedDim d cs = (\<forall>c\<in>set cs. \<forall>p\<in>set (Points c). length (Features p) = d)"

text \<open>The invariant of the baseline registry: every registered cluster has a centroid
  and assigned points of the four feature dimensions.\<close>

definition sound :: "Detector \<Rightarrow> bool" where
  "sound d = (\<forall>name cs. baselines d name = Some cs \<longrightarrow> uniform 4 cs \<and> assignedDim 4 cs)"

text \<open>A point, and the assigned points of a cluster, without the label and the
  back-reference to the triggering sample: the feature vector alone.\<close>

definition featuresOnly :: "ClusterPoint \<Rightarrow> ClusterPoint" where
  "featuresOnly p = p\<lparr>Label := [], Original := None\<rparr>"

definition featuresOnlyCluster :: "Cluster \<Rightarrow> Cluster" where
  "featuresOnlyCluster c = c\<lparr>Points := map featuresOnly (Points c)\<rparr>"

section \<open>Properties of the store\<close>

lemma range_loop:
  "fold (\<lambda>point result. if P point then result @ [point] else result) ps acc = acc @ filter P ps"
  by (induction ps arbitrary: acc) simp_all

lemma series_applyCall:
  "series (applyCall s c) k =
     (if k = seriesKey (callService c) (callMetric c)
      then Some ((case series s k of
                    None \<Rightarrow> \<lparr>SeriesServiceName = callService c, SeriesMetric = callMetric c, SeriesPoints = []\<rparr>
                  | Some t \<Rightarrow> t)\<lparr>SeriesPoints :=
                       (case series s k of None \<Rightarrow> [] | Some t \<Rightarrow> SeriesPoints t) @ [pointOf c]\<rparr>)
      else series s k)"
  by (simp add: applyCall_def Store_def pointOf_def Let_def split: option.splits)

lemma pointsAt_applyCall:
  "pointsAt (applyCall s c) k =
     (if k = seriesKey (callService c) (callMetric c) then pointsAt s k @ [pointOf c] else pointsAt s k)"
  by (simp add: pointsAt_def series_applyCall split: option.splits)

lemma pointsAt_foldl:
  "pointsAt (foldl applyCall s calls) k =
     pointsAt s k @ map pointOf (filter (\<lambda>c. seriesKey (callService c) (callMetric c) = k) calls)"
  by (induction calls arbitrary: s) (simp_all add: pointsAt_applyCall)

lemma pointsAt_built:
  "pointsAt (built calls) (seriesKey serviceName metric) = appended calls serviceName metric"
  by (simp add: built_def appended_def pointsAt_foldl) (simp add: pointsAt_def NewStorage_def)

lemma GetLatestN_pointsAt:
  assumes "0 \<le> n"
  shows "GetLatestN s serviceName metric n =
           Some (drop (length (pointsAt s (seriesKey serviceName metric))
                        - nat (min n (int (length (pointsAt s (seriesKey serviceName metric))))))
                      (pointsAt s (seriesKey serviceName metric)))"
proof (cases "series s (seriesKey serviceName metric)")
  case None
  then show ?thesis by (simp add: GetLatestN_def GetSeries_def pointsAt_def)
next
  case (Some ts)
  have eq: "pointsAt s (seriesKey serviceName metric) = SeriesPoints ts"
    using Some by (simp add: pointsAt_def)
  show ?thesis
  proof (cases "int (length (SeriesPoints ts)) \<le> n")
    case True
    then show ?thesis using Some eq
      by (simp add: GetLatestN_def GetSeries_def min_def)
  next
    case False
    then have "nat (int (length (SeriesPoints ts)) - n) = length (SeriesPoints ts) - nat n"
      using assms by linarith
    then show ?thesis using Some eq False assms
      by (simp add: GetLatestN_def GetSeries_def min_def Let_def)
  qed
qed

section \<open>Properties of the feature extractor\<close>

lemma fold_plus: "fold (\<lambda>x s. s + f x) xs (a::real) = a + sum_list (map f xs)"
  by (induction xs arbitrary: a) (simp_all add: algebra_simps)

lemma ExtractFeatures_Some:
  "0 \<le> w \<Longrightarrow>
   ExtractFeatures points w = Some (map (windowFeature points (nat w)) [nat w..<length points])"
  by (simp add: ExtractFeatures_def)

lemma Features_windowFeature: "length (Features (windowFeature points w i)) = 4"
  by (simp add: windowFeature_def Let_def)

lemma changes_relativeDeltas:
  "map (\<lambda>i. if Value (points ! (i - 1)) \<noteq> 0
             then (Value (points ! i) - Value (points ! (i - 1))) / Value (points ! (i - 1))
             else 0) [1..<length points] = relativeDeltas (map Value points)"
  by (auto simp: relativeDeltas_def)

lemma calculateVolatility_population:
  "calculateVolatility points = populationStdDev (relativeDeltas (map Value points))"
proof (cases "length points < 2")
  case True
  then have "relativeDeltas (map Value points) = []"
    by (simp add: relativeDeltas_def)
  then show ?thesis
    using True by (simp add: calculateVolatility_def populationStdDev_def)
next
  case False
  then have ne: "relativeDeltas (map Value points) \<noteq> []" "points \<noteq> []"
    by (auto simp: relativeDeltas_def)
  show ?thesis
    using False ne unfolding calculateVolatility_def changes_relativeDeltas Let_def
    by (simp add: populationStdDev_def listMean_def fold_plus [where f = "\<lambda>x. x", simplified]
        fold_plus power2_eq_square)
qed

lemma populationStdDev_single: "populationStdDev [x] = 0"
  by (simp add: populationStdDev_def listMean_def)

section \<open>Properties of the clustering engine\<close>


lemma mapOption_Some:
  "mapOption f xs = Some ys \<Longrightarrow> list_all2 (\<lambda>x y. f x = Some y) xs ys"
  by (induction xs arbitrary: ys) (auto split: option.splits)

lemma mapOption_total:
  "(\<And>x. x \<in> set xs \<Longrightarrow> f x = Some (g x)) \<Longrightarrow> mapOption f xs = Some (map g xs)"
  by (induction xs) simp_all

lemma mapOption_defined:
  "(\<And>x. x \<in> set xs \<Longrightarrow> f x \<noteq> None) \<Longrightarrow> \<exists>ys. mapOption f xs = Some ys"
  by (induction xs) (auto split: option.splits)

lemma euclideanDistance_defined:
  "length a \<le> length b \<Longrightarrow> \<exists>d. euclideanDistance a b = Some d"
  by (simp add: euclideanDistance_def)

lemma nearestCluster_defined:
  "\<forall>c\<in>set cs. length f \<le> length (Centroid c) \<Longrightarrow>
   \<exists>r. nearestCluster f cs i m idx = Some r"
  by (induction cs arbitrary: i m idx) (simp_all add: euclideanDistance_def)

lemma nearestCluster_bound:
  "nearestCluster f cs i m idx = Some r \<Longrightarrow> r = idx \<or> (i \<le> r \<and> r < i + length cs)"
proof (induction cs arbitrary: i m idx)
  case Nil
  then show ?case by simp
next
  case (Cons c cs)
  then show ?case
    by (fastforce split: option.splits if_splits)
qed

lemma nearestCluster_in_range:
  assumes "nearestCluster f cs 0 m 0 = Some r" "cs \<noteq> []"
  shows "r < length cs"
  using nearestCluster_bound [OF assms(1)] assms(2) by auto

lemma Points_update:
  assumes "i < length cs"
  shows "mset (concat (map Points (cs[i := (cs ! i)\<lparr>Points := Points (cs ! i) @ [p]\<rparr>])))
         = mset (concat (map Points cs)) + {#p#}"
proof -
  have split: "cs = take i cs @ (cs ! i) # drop (Suc i) cs"
    using assms by (simp add: id_take_nth_drop)
  have upd: "cs[i := (cs ! i)\<lparr>Points := Points (cs ! i) @ [p]\<rparr>]
             = take i cs @ ((cs ! i)\<lparr>Points := Points (cs ! i) @ [p]\<rparr>) # drop (Suc i) cs"
    using assms by (simp add: upd_conv_take_nth_drop)
  have "mset (concat (map Points (take i cs @ (cs ! i) # drop (Suc i) cs))) + {#p#}
        = mset (concat (map Points (take i cs @ ((cs ! i)\<lparr>Points := Points (cs ! i) @ [p]\<rparr>) # drop (Suc i) cs)))"
    by simp
  then show ?thesis
    using split upd by metis
qed

lemma assignPoint_props:
  assumes "assignPoint cs p = Some cs'"
  shows "length cs' = length cs"
    and "map Centroid cs' = map Centroid cs"
    and "mset (concat (map Points cs')) = mset (concat (map Points cs)) + {#p#}"
proof -
  from assms obtain idx where idx: "idx < length cs"
    and cs': "cs' = cs[idx := (cs ! idx)\<lparr>Points := Points (cs ! idx) @ [p]\<rparr>]"
    by (auto simp: assignPoint_def split: option.splits if_splits)
  show "length cs' = length cs" by (simp add: cs')
  show "map Centroid cs' = map Centroid cs"
    using idx by (simp add: cs' map_update list_update_same_conv)
  show "mset (concat (map Points cs')) = mset (concat (map Points cs)) + {#p#}"
    unfolding cs' by (rule Points_update [OF idx])
qed

lemma assignPoint_defined:
  assumes "cs \<noteq> []" "\<And>c. c \<in> set cs \<Longrightarrow> length (Features p) \<le> length (Centroid c)"
  shows "\<exists>cs'. assignPoint cs p = Some cs'"
proof -
  obtain r where r: "nearestCluster (Features p) cs 0 PosInf 0 = Some r"
    using nearestCluster_defined [of cs "Features p" 0 PosInf 0] assms(2) by blast
  then have "r < length cs"
    using nearestCluster_in_range assms(1) by blast
  then show ?thesis
    using r by (simp add: assignPoint_def)
qed

lemma foldOption_assignPoint:
  assumes "cs \<noteq> []"
    and "\<And>c p. c \<in> set cs \<Longrightarrow> p \<in> set ps \<Longrightarrow> length (Features p) \<le> length (Centroid c)"
  shows "\<exists>cs'. foldOption assignPoint cs ps = Some cs'
           \<and> length cs' = length cs
           \<and> map Centroid cs' = map Centroid cs
           \<and> mset (concat (map Points cs')) = mset (concat (map Points cs)) + mset ps"
  using assms
proof (induction ps arbitrary: cs)
  case Nil
  then show ?case by simp
next
  case (Cons p ps)
  obtain cs1 where cs1: "assignPoint cs p = Some cs1"
    using assignPoint_defined [of cs p] Cons.prems by auto
  note props = assignPoint_props [OF cs1]
  have ne: "cs1 \<noteq> []"
    using props(1) Cons.prems(1) by auto
  have dims: "\<And>c q. c \<in> set cs1 \<Longrightarrow> q \<in> set ps \<Longrightarrow> length (Features q) \<le> length (Centroid c)"
  proof -
    fix c q assume c: "c \<in> set cs1" and q: "q \<in> set ps"
    have "Centroid c \<in> set (map Centroid cs1)" using c by simp
    then have "Centroid c \<in> set (map Centroid cs)" using props(2) by simp
    then obtain c0 where "c0 \<in> set cs" "Centroid c0 = Centroid c" by auto
    then show "length (Features q) \<le> length (Centroid c)"
      using Cons.prems(2) [of c0 q] q by simp
  qed
  from Cons.IH [OF ne dims] obtain cs' where
    "foldOption assignPoint cs1 ps = Some cs'" "length cs' = length cs1"
    "map Centroid cs' = map Centroid cs1"
    "mset (concat (map Points cs')) = mset (concat (map Points cs1)) + mset ps"
    by blast
  then show ?case
    using cs1 props by simp
qed

lemma foldOption_assignPoint_props:
  "foldOption assignPoint cs ps = Some cs' \<Longrightarrow>
     length cs' = length cs \<and> map Centroid cs' = map Centroid cs
     \<and> mset (concat (map Points cs')) = mset (concat (map Points cs)) + mset ps"
proof (induction ps arbitrary: cs)
  case Nil
  then show ?case by simp
next
  case (Cons p ps)
  then obtain cs1 where cs1: "assignPoint cs p = Some cs1"
    and rest: "foldOption assignPoint cs1 ps = Some cs'"
    by (auto split: option.splits)
  show ?case
    using Cons.IH [OF rest] assignPoint_props [OF cs1] by simp
qed


lemma sumFeature_defined:
  "\<forall>p\<in>set ps. j < length (Features p) \<Longrightarrow> \<exists>r. sumFeature j ps acc = Some r"
  by (induction ps arbitrary: acc) simp_all

lemma updateCentroid_props:
  assumes "updateCentroid c = Some c'"
  shows "Points c' = Points c" and "length (Centroid c') = length (Centroid c)"
proof -
  show "Points c' = Points c"
    using assms by (auto simp: updateCentroid_def split: if_splits option.splits)
  show "length (Centroid c') = length (Centroid c)"
  proof (cases "length (Points c) = 0")
    case True
    then show ?thesis using assms by (simp add: updateCentroid_def)
  next
    case False
    then obtain centroid where
      m: "mapOption (\<lambda>j. case sumFeature j (Points c) 0 of
                            None \<Rightarrow> None
                          | Some acc \<Rightarrow> Some (acc / real (length (Points c))))
                    [0..<length (Centroid c)] = Some centroid"
      and c': "c' = c\<lparr>Centroid := centroid\<rparr>"
      using assms by (auto simp: updateCentroid_def split: option.splits)
    have "length [0..<length (Centroid c)] = length centroid"
      by (rule list_all2_lengthD [OF mapOption_Some [OF m]])
    then show ?thesis by (simp add: c')
  qed
qed

lemma updateCentroid_defined:
  assumes "\<forall>p\<in>set (Points c). length (Centroid c) \<le> length (Features p)"
  shows "\<exists>c'. updateCentroid c = Some c'"
proof (cases "length (Points c) = 0")
  case True
  then show ?thesis by (simp add: updateCentroid_def)
next
  case False
  have "\<exists>ys. mapOption (\<lambda>j. case sumFeature j (Points c) 0 of
                            None \<Rightarrow> None
                          | Some acc \<Rightarrow> Some (acc / real (length (Points c))))
                    [0..<length (Centroid c)] = Some ys"
  proof (rule mapOption_defined)
    fix j assume "j \<in> set [0..<length (Centroid c)]"
    then have "\<forall>p\<in>set (Points c). j < length (Features p)"
      using assms by fastforce
    from sumFeature_defined [OF this, of 0]
    show "(case sumFeature j (Points c) 0 of
             None \<Rightarrow> None
           | Some acc \<Rightarrow> Some (acc / real (length (Points c)))) \<noteq> None"
      by auto
  qed
  then show ?thesis
    using False by (auto simp: updateCentroid_def)
qed

lemma updateCentroids_props:
  assumes "updateCentroids cs = Some cs'"
  shows "length cs' = length cs"
    and "map Points cs' = map Points cs"
    and "map (\<lambda>c. length (Centroid c)) cs' = map (\<lambda>c. length (Centroid c)) cs"
proof -
  have rel: "list_all2 (\<lambda>c c'. updateCentroid c = Some c') cs cs'"
    using assms by (simp add: updateCentroids_def mapOption_Some)
  then show len: "length cs' = length cs"
    by (simp add: list_all2_lengthD)
  have nth: "\<And>i. i < length cs \<Longrightarrow> updateCentroid (cs ! i) = Some (cs' ! i)"
    by (rule list_all2_nthD [OF rel])
  show "map Points cs' = map Points cs"
    by (rule nth_equalityI) (simp_all add: len updateCentroid_props(1) [OF nth])
  show "map (\<lambda>c. length (Centroid c)) cs' = map (\<lambda>c. length (Centroid c)) cs"
    by (rule nth_equalityI) (simp_all add: len updateCentroid_props(2) [OF nth])
qed

lemma updateCentroids_defined:
  assumes "\<forall>c\<in>set cs. \<forall>p\<in>set (Points c). length (Centroid c) \<le> length (Features p)"
  shows "\<exists>cs'. updateCentroids cs = Some cs'"
  unfolding updateCentroids_def
proof (rule mapOption_defined)
  fix c assume "c \<in> set cs"
  then show "updateCentroid c \<noteq> None"
    using updateCentroid_defined [of c] assms by auto
qed

lemma hasConverged_defined:
  "list_all2 (\<lambda>old c. length old \<le> length (Centroid c)) olds cs \<Longrightarrow>
   \<exists>b. hasConverged tol olds cs = Some b"
proof (induction tol olds cs rule: hasConverged.induct)
  case (1 tol old)
  then show ?case by auto
next
  case (2 tol cluster rest)
  then show ?case by simp
next
  case (3 tol oldCentroid old cluster rest)
  then show ?case
    by (auto simp: euclideanDistance_def)
qed

lemma uniform_map: "uniform d cs \<longleftrightarrow> (\<forall>n\<in>set (map (\<lambda>c. length (Centroid c)) cs). n = d)"
  by (auto simp: uniform_def)

lemma concat_reset: "concat (map Points (map (\<lambda>c. c\<lparr>Points := []\<rparr>) cs)) = []"
  by (induction cs) simp_all

lemma assignPointsToClusters_defined:
  assumes ne: "cs \<noteq> []" and un: "uniform d cs"
    and pts: "\<forall>p\<in>set points. length (Features p) = d"
  shows "\<exists>assigned. assignPointsToClusters points cs = Some assigned"
proof -
  let ?reset = "map (\<lambda>c. c\<lparr>Points := []\<rparr>) cs"
  have 1: "?reset \<noteq> []" using ne by simp
  have 2: "\<And>c p. c \<in> set ?reset \<Longrightarrow> p \<in> set points \<Longrightarrow> length (Features p) \<le> length (Centroid c)"
  proof -
    fix c p assume "c \<in> set ?reset" and p: "p \<in> set points"
    then obtain c0 where "c0 \<in> set cs" "c = c0\<lparr>Points := []\<rparr>" by auto
    then have "length (Centroid c) = d" using un by (simp add: uniform_def)
    then show "length (Features p) \<le> length (Centroid c)" using pts p by simp
  qed
  from foldOption_assignPoint [OF 1 2] obtain assigned where
    "foldOption assignPoint ?reset points = Some assigned" by blast
  then show ?thesis by (simp add: assignPointsToClusters_def)
qed

lemma assignPointsToClusters_props:
  assumes "assignPointsToClusters points cs = Some assigned"
  shows "length assigned = length cs"
    and "map Centroid assigned = map Centroid cs"
    and "mset (concat (map Points assigned)) = mset points"
proof -
  let ?reset = "map (\<lambda>c. c\<lparr>Points := []\<rparr>) cs"
  have f: "foldOption assignPoint ?reset points = Some assigned"
    using assms by (simp add: assignPointsToClusters_def)
  note props = foldOption_assignPoint_props [OF f]
  show "length assigned = length cs" using props by simp
  have "map Centroid ?reset = map Centroid cs" by simp
  then show "map Centroid assigned = map Centroid cs" using props by simp
  show "mset (concat (map Points assigned)) = mset points"
    using props by (simp add: concat_reset)
qed

lemma uniform_cong:
  "map (\<lambda>c. length (Centroid c)) cs' = map (\<lambda>c. length (Centroid c)) cs \<Longrightarrow>
   uniform d cs \<Longrightarrow> uniform d cs'"
  by (simp add: uniform_map)

lemma hasConverged_uniform:
  assumes "length cs' = length cs" "uniform d cs" "uniform d cs'"
  shows "\<exists>b. hasConverged tol (copyCentroids cs) cs' = Some b"
proof (rule hasConverged_defined)
  show "list_all2 (\<lambda>old c. length old \<le> length (Centroid c)) (copyCentroids cs) cs'"
    unfolding list_all2_conv_all_nth copyCentroids_def
    using assms by (simp add: uniform_def)
qed

lemma iteration_step:
  assumes ne: "cs \<noteq> []" and un: "uniform d cs"
    and pts: "\<forall>p\<in>set points. length (Features p) = d"
  shows "\<exists>assigned updated b.
           assignPointsToClusters points cs = Some assigned
         \<and> updateCentroids assigned = Some updated
         \<and> hasConverged tol (copyCentroids cs) updated = Some b
         \<and> length updated = length cs \<and> uniform d updated
         \<and> mset (concat (map Points updated)) = mset points"
proof -
  from assignPointsToClusters_defined [OF ne un pts]
  obtain assigned where a: "assignPointsToClusters points cs = Some assigned" by blast
  note ap = assignPointsToClusters_props [OF a]
  have "map (\<lambda>c. length (Centroid c)) assigned = map (\<lambda>c. length (Centroid c)) cs"
  proof -
    have "map length (map Centroid assigned) = map length (map Centroid cs)"
      by (simp only: ap(2))
    then show ?thesis by (simp add: comp_def)
  qed
  then have aun: "uniform d assigned" using un by (rule uniform_cong)
  have sets: "set (concat (map Points assigned)) = set points"
  proof -
    have "set_mset (mset (concat (map Points assigned))) = set_mset (mset points)"
      by (simp only: ap(3))
    then show ?thesis by (simp only: set_mset_mset)
  qed
  have adims: "\<forall>c\<in>set assigned. \<forall>p\<in>set (Points c). length (Centroid c) \<le> length (Features p)"
  proof (intro ballI)
    fix c p assume c: "c \<in> set assigned" and p: "p \<in> set (Points c)"
    then have "p \<in> set (concat (map Points assigned))" by auto
    then have "p \<in> set points" by (simp only: sets)
    then have "length (Features p) = d" using pts by simp
    moreover have "length (Centroid c) = d" using aun c by (simp add: uniform_def)
    ultimately show "length (Centroid c) \<le> length (Features p)" by simp
  qed
  from updateCentroids_defined [OF adims]
  obtain updated where u: "updateCentroids assigned = Some updated" by blast
  note up = updateCentroids_props [OF u]
  have ulen: "length updated = length cs" using up(1) ap(1) by simp
  have uun: "uniform d updated" using up(3) aun by (rule uniform_cong)
  have umset: "mset (concat (map Points updated)) = mset points"
    using ap(3) up(2) by simp
  from hasConverged_uniform [OF ulen un uun]
  obtain b where "hasConverged tol (copyCentroids cs) updated = Some b" by blast
  then show ?thesis
    using a u ulen uun umset by blast
qed

lemma iterate_Suc:
  assumes "assignPointsToClusters points cs = Some assigned"
    and "updateCentroids assigned = Some updated"
    and "hasConverged (Tolerance cfg) (copyCentroids cs) updated = Some b"
  shows "iterate cfg points (Suc n) cs = (if b then Some updated else iterate cfg points n updated)"
  using assms by (simp add: Let_def)

lemma iterate_partition:
  assumes "cs \<noteq> []" "uniform d cs" "\<forall>p\<in>set points. length (Features p) = d"
  shows "\<exists>cs'. iterate cfg points (Suc n) cs = Some cs' \<and> length cs' = length cs
            \<and> uniform d cs' \<and> mset (concat (map Points cs')) = mset points"
  using assms
proof (induction n arbitrary: cs)
  case 0
  from iteration_step [OF 0(1) 0(2) 0(3), of "Tolerance cfg"]
  obtain assigned updated b where
    st: "assignPointsToClusters points cs = Some assigned"
        "updateCentroids assigned = Some updated"
        "hasConverged (Tolerance cfg) (copyCentroids cs) updated = Some b"
    and inv: "length updated = length cs" "uniform d updated"
        "mset (concat (map Points updated)) = mset points"
    by blast
  have "iterate cfg points (Suc 0) cs = Some updated"
    unfolding iterate_Suc [OF st] by simp
  then show ?case using inv by simp
next
  case (Suc n)
  from iteration_step [OF Suc.prems(1) Suc.prems(2) Suc.prems(3), of "Tolerance cfg"]
  obtain assigned updated b where
    st: "assignPointsToClusters points cs = Some assigned"
        "updateCentroids assigned = Some updated"
        "hasConverged (Tolerance cfg) (copyCentroids cs) updated = Some b"
    and inv: "length updated = length cs" "uniform d updated"
        "mset (concat (map Points updated)) = mset points"
    by blast
  have ne: "updated \<noteq> []" using inv(1) Suc.prems(1) by auto
  from Suc.IH [OF ne inv(2) Suc.prems(3)]
  obtain cs' where rec: "iterate cfg points (Suc n) updated = Some cs'"
    and inv': "length cs' = length updated"
    "uniform d cs'" "mset (concat (map Points cs')) = mset points"
    by blast
  have "iterate cfg points (Suc (Suc n)) cs = (if b then Some updated else Some cs')"
    unfolding iterate_Suc [OF st] rec ..
  then show ?case
    using inv inv' by (cases b) simp_all
qed


lemma int_div_less:
  assumes "0 < k" "a < n * (k::int)"
  shows "a div k < n"
proof (rule ccontr)
  assume "\<not> a div k < n"
  then have "n \<le> a div k" by simp
  then have "n * k \<le> a div k * k"
    using assms(1) by (simp add: mult_right_mono)
  moreover have "a div k * k + a mod k = a" by simp
  moreover have "0 \<le> a mod k" using assms(1) by simp
  ultimately show False using assms(2) by linarith
qed

lemma seed_index_in_range:
  assumes "0 < k" "int i < k" "k \<le> int n"
  shows "0 \<le> int i * int n div k \<and> int i * int n div k < int n"
proof
  show "0 \<le> int i * int n div k"
    using assms(1) by (simp add: pos_imp_zdiv_nonneg_iff)
next
  have n: "0 < int n" using assms by linarith
  have lt: "int i * int n < int n * k"
    using assms(2) n by (simp add: mult.commute)
  show "int i * int n div k < int n"
    by (rule int_div_less [OF assms(1) lt])
qed

lemma initializeClusters_seeds:
  assumes "1 \<le> K cfg" "K cfg \<le> int (length points)"
  shows "initializeClusters cfg points = Some (map (seed cfg points) [0..<nat (K cfg)])"
proof -
  have "mapOption (seedCluster cfg points) [0..<nat (K cfg)]
          = Some (map (seed cfg points) [0..<nat (K cfg)])"
  proof (rule mapOption_total)
    fix i assume "i \<in> set [0..<nat (K cfg)]"
    then have "int i < K cfg" by simp
    from seed_index_in_range [OF _ this assms(2)] assms(1)
    show "seedCluster cfg points i = Some (seed cfg points i)"
      by (simp add: seedCluster_def seed_def Let_def)
  qed
  then show ?thesis
    using assms(1) by (simp add: initializeClusters_def)
qed

lemma seed_uniform:
  assumes "1 \<le> K cfg" "K cfg \<le> int (length points)" "\<forall>p\<in>set points. length (Features p) = d"
  shows "uniform d (map (seed cfg points) [0..<nat (K cfg)])"
  unfolding uniform_def
proof
  fix c assume "c \<in> set (map (seed cfg points) [0..<nat (K cfg)])"
  then obtain i where i: "i < nat (K cfg)" and c: "c = seed cfg points i" by auto
  have "int i < K cfg" using i by simp
  from seed_index_in_range [OF _ this assms(2)] assms(1)
  have "nat (int i * int (length points) div K cfg) < length points" by linarith
  then have "points ! nat (int i * int (length points) div K cfg) \<in> set points" by simp
  then show "length (Centroid c) = d"
    using assms(3) by (simp add: c seed_def)
qed

lemma KMeans_partition_aux:
  assumes "1 \<le> K cfg" "K cfg \<le> int (length points)" "1 \<le> MaxIter cfg"
    and "\<forall>p\<in>set points. length (Features p) = d"
  shows "\<exists>clusters. KMeans cfg points = Some clusters \<and> length clusters = nat (K cfg)
           \<and> mset (concat (map Points clusters)) = mset points
           \<and> uniform d clusters"
proof -
  let ?init = "map (seed cfg points) [0..<nat (K cfg)]"
  have init: "initializeClusters cfg points = Some ?init"
    by (rule initializeClusters_seeds [OF assms(1,2)])
  have ne: "?init \<noteq> []" using assms(1) by simp
  have un: "uniform d ?init" by (rule seed_uniform [OF assms(1,2,4)])
  obtain m where m: "nat (MaxIter cfg) = Suc m"
    using assms(3) by (cases "nat (MaxIter cfg)") auto
  from iterate_partition [OF ne un assms(4), of cfg m]
  obtain cs' where "iterate cfg points (Suc m) ?init = Some cs'" "length cs' = length ?init"
    "uniform d cs'" "mset (concat (map Points cs')) = mset points"
    by (elim exE conjE)
  moreover have "KMeans cfg points = iterate cfg points (Suc m) ?init"
    using init m assms(2) by (simp add: KMeans_def del: iterate.simps)
  ultimately show ?thesis
    by (simp del: iterate.simps)
qed

lemma iterate_cong:
  assumes "Tolerance cfg' = Tolerance cfg"
  shows "iterate cfg' points n cs = iterate cfg points n cs"
proof (induction n arbitrary: cs)
  case 0
  show ?case by simp
next
  case (Suc n)
  show ?case
    unfolding iterate.simps Let_def assms Suc.IH ..
qed

lemma initializeClusters_cong:
  "K cfg' = K cfg \<Longrightarrow> initializeClusters cfg' points = initializeClusters cfg points"
proof -
  assume k: "K cfg' = K cfg"
  then have "seedCluster cfg' points = seedCluster cfg points"
    by (simp add: seedCluster_def fun_eq_iff)
  then show ?thesis using k by (simp add: initializeClusters_def)
qed

lemma KMeans_cong:
  "K cfg' = K cfg \<Longrightarrow> MaxIter cfg' = MaxIter cfg \<Longrightarrow> Tolerance cfg' = Tolerance cfg \<Longrightarrow>
   KMeans cfg' points = KMeans cfg points"
  by (simp add: KMeans_def initializeClusters_cong [of cfg' cfg] iterate_cong [of cfg' cfg]
      del: iterate.simps cong: option.case_cong)


lemma Features_featuresOnly [simp]: "Features (featuresOnly p) = Features p"
  by (simp add: featuresOnly_def)

lemma Centroid_featuresOnlyCluster [simp]: "Centroid (featuresOnlyCluster c) = Centroid c"
  by (simp add: featuresOnlyCluster_def)

lemma Points_featuresOnlyCluster [simp]:
  "Points (featuresOnlyCluster c) = map featuresOnly (Points c)"
  by (simp add: featuresOnlyCluster_def)

lemma mapOption_map: "mapOption f (map g xs) = mapOption (\<lambda>x. f (g x)) xs"
  by (induction xs) (simp_all split: option.splits)

lemma mapOption_map_option:
  "mapOption (\<lambda>x. map_option h (f x)) xs = map_option (map h) (mapOption f xs)"
  by (induction xs) (simp_all split: option.splits)

lemma mapOption_cong:
  "(\<And>x. x \<in> set xs \<Longrightarrow> f x = g x) \<Longrightarrow> mapOption f xs = mapOption g xs"
  by (induction xs) (simp_all split: option.splits)

lemma seedCluster_featuresOnly:
  "seedCluster cfg (map featuresOnly points) i = seedCluster cfg points i"
proof (cases "0 \<le> int i * int (length points) div K cfg
              \<and> int i * int (length points) div K cfg < int (length points)")
  case True
  then have "nat (int i * int (length points) div K cfg) < length points"
    by linarith
  then have "Features (map featuresOnly points ! nat (int i * int (length points) div K cfg))
               = Features (points ! nat (int i * int (length points) div K cfg))"
    by simp
  then show ?thesis
    unfolding seedCluster_def Let_def length_map by (simp only:)
next
  case False
  then have c: "(0 \<le> int i * int (length points) div K cfg
              \<and> int i * int (length points) div K cfg < int (length points)) = False"
    by blast
  show ?thesis
    unfolding seedCluster_def Let_def length_map c by simp
qed

lemma initializeClusters_featuresOnly:
  "initializeClusters cfg (map featuresOnly points) = initializeClusters cfg points"
  by (simp add: initializeClusters_def seedCluster_featuresOnly cong: mapOption_cong)

lemma nearestCluster_featuresOnly:
  "nearestCluster f (map featuresOnlyCluster cs) i m idx = nearestCluster f cs i m idx"
  by (induction cs arbitrary: i m idx) (simp_all split: option.splits)

lemma featuresOnlyCluster_append:
  "featuresOnlyCluster (c\<lparr>Points := Points c @ [p]\<rparr>)
     = (featuresOnlyCluster c)\<lparr>Points := Points (featuresOnlyCluster c) @ [featuresOnly p]\<rparr>"
  by (simp add: featuresOnlyCluster_def)

lemma assignPoint_featuresOnly:
  "assignPoint (map featuresOnlyCluster cs) (featuresOnly p)
     = map_option (map featuresOnlyCluster) (assignPoint cs p)"
  by (simp add: assignPoint_def nearestCluster_featuresOnly map_update featuresOnlyCluster_append
      split: option.splits)

lemma foldOption_featuresOnly:
  "foldOption assignPoint (map featuresOnlyCluster cs) (map featuresOnly ps)
     = map_option (map featuresOnlyCluster) (foldOption assignPoint cs ps)"
proof (induction ps arbitrary: cs)
  case Nil
  show ?case by simp
next
  case (Cons p ps)
  show ?case
    by (cases "assignPoint cs p") (simp_all add: assignPoint_featuresOnly Cons.IH)
qed

lemma reset_featuresOnly:
  "map (\<lambda>c. c\<lparr>Points := []\<rparr>) (map featuresOnlyCluster cs)
     = map featuresOnlyCluster (map (\<lambda>c. c\<lparr>Points := []\<rparr>) cs)"
  by (simp add: featuresOnlyCluster_def)

lemma assignPointsToClusters_featuresOnly:
  "assignPointsToClusters (map featuresOnly ps) (map featuresOnlyCluster cs)
     = map_option (map featuresOnlyCluster) (assignPointsToClusters ps cs)"
  unfolding assignPointsToClusters_def reset_featuresOnly by (rule foldOption_featuresOnly)

lemma sumFeature_featuresOnly: "sumFeature j (map featuresOnly ps) acc = sumFeature j ps acc"
  by (induction ps arbitrary: acc) simp_all

lemma updateCentroid_featuresOnly:
  "updateCentroid (featuresOnlyCluster c) = map_option featuresOnlyCluster (updateCentroid c)"
proof (cases "Points c = []")
  case True
  then show ?thesis
    by (simp add: updateCentroid_def)
next
  case False
  show ?thesis
  proof (cases "mapOption (\<lambda>j. case sumFeature j (Points c) 0 of
                                   None \<Rightarrow> None
                                 | Some acc \<Rightarrow> Some (acc / real (length (Points c))))
                           [0..<length (Centroid c)]")
    case None
    then show ?thesis
      using False by (simp add: updateCentroid_def sumFeature_featuresOnly cong: option.case_cong)
  next
    case (Some centroid)
    have "(featuresOnlyCluster c)\<lparr>Centroid := centroid\<rparr>
            = featuresOnlyCluster (c\<lparr>Centroid := centroid\<rparr>)"
      by (simp add: featuresOnlyCluster_def)
    then show ?thesis
      using False Some
      by (simp add: updateCentroid_def sumFeature_featuresOnly cong: option.case_cong)
  qed
qed

lemma updateCentroids_featuresOnly:
  "updateCentroids (map featuresOnlyCluster cs)
     = map_option (map featuresOnlyCluster) (updateCentroids cs)"
  by (simp add: updateCentroids_def mapOption_map updateCentroid_featuresOnly mapOption_map_option)

lemma hasConverged_featuresOnly:
  "hasConverged tol old (map featuresOnlyCluster cs) = hasConverged tol old cs"
  by (induction tol old cs rule: hasConverged.induct) (simp_all split: option.splits)

lemma copyCentroids_featuresOnly: "copyCentroids (map featuresOnlyCluster cs) = copyCentroids cs"
  by (simp add: copyCentroids_def)

lemma iterate_featuresOnly:
  "iterate cfg (map featuresOnly ps) n (map featuresOnlyCluster cs)
     = map_option (map featuresOnlyCluster) (iterate cfg ps n cs)"
proof (induction n arbitrary: cs)
  case 0
  show ?case by simp
next
  case (Suc n)
  show ?case
  proof (cases "assignPointsToClusters ps cs")
    case None
    then show ?thesis
      by (simp add: assignPointsToClusters_featuresOnly Let_def)
  next
    case a: (Some assigned)
    show ?thesis
    proof (cases "updateCentroids assigned")
      case None
      then show ?thesis
        using a by (simp add: assignPointsToClusters_featuresOnly updateCentroids_featuresOnly Let_def)
    next
      case u: (Some updated)
      show ?thesis
      proof (cases "hasConverged (Tolerance cfg) (copyCentroids cs) updated")
        case None
        then show ?thesis
          using a u
          by (simp add: assignPointsToClusters_featuresOnly updateCentroids_featuresOnly
              hasConverged_featuresOnly copyCentroids_featuresOnly Let_def)
      next
        case (Some b)
        then show ?thesis
          using a u Suc.IH [of updated]
          by (simp add: assignPointsToClusters_featuresOnly updateCentroids_featuresOnly
              hasConverged_featuresOnly copyCentroids_featuresOnly Let_def)
      qed
    qed
  qed
qed

lemma initializeClusters_no_points:
  "initializeClusters cfg points = Some cs \<Longrightarrow> map featuresOnlyCluster cs = cs"
proof -
  assume a: "initializeClusters cfg points = Some cs"
  have rel: "list_all2 (\<lambda>i c. seedCluster cfg points i = Some c) [0..<nat (K cfg)] cs"
    using a by (auto simp: initializeClusters_def mapOption_Some split: if_splits)
  have "\<And>c. c \<in> set cs \<Longrightarrow> featuresOnlyCluster c = c"
  proof -
    fix c assume "c \<in> set cs"
    then obtain j where j: "j < length cs" "c = cs ! j" by (auto simp: in_set_conv_nth)
    have "j < length [0..<nat (K cfg)]" using j(1) list_all2_lengthD [OF rel] by simp
    from list_all2_nthD [OF rel this]
    have "seedCluster cfg points ([0..<nat (K cfg)] ! j) = Some c" using j(2) by simp
    then have "Points c = []"
      by (auto simp: seedCluster_def Let_def split: if_splits)
    then show "featuresOnlyCluster c = c" by (simp add: featuresOnlyCluster_def)
  qed
  then show ?thesis by (simp add: map_idI)
qed

lemma KMeans_featuresOnly:
  "KMeans cfg (map featuresOnly points) = map_option (map featuresOnlyCluster) (KMeans cfg points)"
proof (cases "initializeClusters cfg points")
  case None
  then show ?thesis
    by (simp add: KMeans_def initializeClusters_featuresOnly)
next
  case (Some init)
  have "iterate cfg (map featuresOnly points) (nat (MaxIter cfg)) init
          = map_option (map featuresOnlyCluster) (iterate cfg points (nat (MaxIter cfg)) init)"
    using iterate_featuresOnly [of cfg points "nat (MaxIter cfg)" init]
      initializeClusters_no_points [OF Some] by simp
  then show ?thesis
    using Some by (simp add: KMeans_def initializeClusters_featuresOnly del: iterate.simps)
qed

lemma featuresOnly_eq:
  "map Features points' = map Features points \<Longrightarrow> map featuresOnly points' = map featuresOnly points"
proof (induction points' arbitrary: points)
  case Nil
  then show ?case by simp
next
  case (Cons p ps)
  then obtain q qs where "points = q # qs" by (cases points) auto
  then show ?case using Cons by (simp add: featuresOnly_def)
qed

lemma KMeans_features_only:
  assumes "K cfg' = K cfg" "MaxIter cfg' = MaxIter cfg" "Tolerance cfg' = Tolerance cfg"
    and "map Features points' = map Features points"
  shows "map_option (map featuresOnlyCluster) (KMeans cfg' points')
           = map_option (map featuresOnlyCluster) (KMeans cfg points)"
proof -
  have "map_option (map featuresOnlyCluster) (KMeans cfg' points')
          = KMeans cfg' (map featuresOnly points')"
    by (simp only: KMeans_featuresOnly)
  also have "\<dots> = KMeans cfg' (map featuresOnly points)"
    by (simp only: featuresOnly_eq [OF assms(4)])
  also have "\<dots> = KMeans cfg (map featuresOnly points)"
    by (rule KMeans_cong [OF assms(1-3)])
  also have "\<dots> = map_option (map featuresOnlyCluster) (KMeans cfg points)"
    by (simp only: KMeans_featuresOnly)
  finally show ?thesis .
qed

lemma KMeans_too_few_points: "int (length points) < K cfg \<Longrightarrow> KMeans cfg points = Some []"
  by (simp add: KMeans_def)

section \<open>Properties of the dynamic threshold\<close>


lemma squaredDistance_nonneg: "0 \<le> squaredDistance a b"
  unfolding squaredDistance_def by (rule sum_list_nonneg) auto

lemma detectorDistance_sqrt:
  "length a \<le> length b \<Longrightarrow> detectorDistance a b = Some (sqrt (squaredDistance a b))"
  by (simp add: detectorDistance_def squaredDistance_def fold_plus power2_eq_square)

lemma euclideanDistance_detectorDistance: "euclideanDistance a b = detectorDistance a b"
  by (simp add: euclideanDistance_def detectorDistance_def)

lemma varianceLoop_sum:
  "\<forall>p\<in>set ps. length (Features p) \<le> length centroid \<Longrightarrow>
   varianceLoop centroid ps v = Some (v + (\<Sum>p\<leftarrow>ps. squaredDistance (Features p) centroid))"
proof (induction ps arbitrary: v)
  case Nil
  show ?case by simp
next
  case (Cons p ps)
  have "sqrt (squaredDistance (Features p) centroid) * sqrt (squaredDistance (Features p) centroid)
          = squaredDistance (Features p) centroid"
    using squaredDistance_nonneg [of "Features p" centroid] by simp
  then show ?case
    using Cons by (simp add: detectorDistance_sqrt add.assoc)
qed

lemma wellFormed_Cons:
  "wellFormed (c # cs) \<longleftrightarrow>
     (\<forall>p\<in>set (Points c). length (Features p) = length (Centroid c)) \<and> wellFormed cs"
  by (simp add: wellFormed_def list_all_iff)

lemma thresholdLoop_sum:
  "wellFormed cs \<Longrightarrow>
   thresholdLoop cs tv tp = Some (tv + weightedVariances cs, tp + totalAssigned cs)"
proof (induction cs arbitrary: tv tp)
  case Nil
  show ?case by (simp add: weightedVariances_def totalAssigned_def)
next
  case (Cons c cs)
  then have wf: "wellFormed cs"
    and dims: "\<forall>p\<in>set (Points c). length (Features p) \<le> length (Centroid c)"
    by (simp_all add: wellFormed_Cons)
  show ?case
  proof (cases "Points c = []")
    case True
    then show ?thesis
      using Cons.IH [OF wf] by (simp add: weightedVariances_def totalAssigned_def)
  next
    case False
    have v: "varianceLoop (Centroid c) (Points c) 0
               = Some (\<Sum>p\<leftarrow>Points c. squaredDistance (Features p) (Centroid c))"
      using varianceLoop_sum [OF dims, of 0] by simp
    show ?thesis
      using False v Cons.IH [OF wf]
      by (simp add: weightedVariances_def totalAssigned_def intraClusterVariance_def
          Let_def algebra_simps)
  qed
qed

lemma totalAssigned_Nil: "totalAssigned [] = 0"
  by (simp add: totalAssigned_def)

lemma calculateDynamicThreshold_spec:
  assumes "wellFormed clusters"
  shows "calculateDynamicThreshold cfg clusters = Some (dynamicThreshold cfg clusters)"
proof (cases "clusters = []")
  case True
  then show ?thesis
    by (simp add: calculateDynamicThreshold_def dynamicThreshold_def totalAssigned_def)
next
  case False
  have "thresholdLoop clusters 0 0 = Some (weightedVariances clusters, totalAssigned clusters)"
    using thresholdLoop_sum [OF assms, of 0 0] by simp
  then show ?thesis
    using False
    by (simp add: calculateDynamicThreshold_def dynamicThreshold_def pooledVariance_def Let_def)
qed

section \<open>Properties of the detector\<close>


lemma assignedDim_concat: "assignedDim d cs \<longleftrightarrow> (\<forall>p\<in>set (concat (map Points cs)). length (Features p) = d)"
  by (auto simp: assignedDim_def)

lemma initializeClusters_inv:
  assumes "initializeClusters cfg points = Some cs" "\<forall>p\<in>set points. length (Features p) = d"
  shows "uniform d cs \<and> assignedDim d cs"
proof -
  have rel: "list_all2 (\<lambda>i c. seedCluster cfg points i = Some c) [0..<nat (K cfg)] cs"
    using assms(1) by (auto simp: initializeClusters_def mapOption_Some split: if_splits)
  have "\<And>c. c \<in> set cs \<Longrightarrow> length (Centroid c) = d \<and> Points c = []"
  proof -
    fix c assume "c \<in> set cs"
    then obtain j where j: "j < length cs" "c = cs ! j" by (auto simp: in_set_conv_nth)
    have "j < length [0..<nat (K cfg)]" using j(1) list_all2_lengthD [OF rel] by simp
    from list_all2_nthD [OF rel this]
    have "seedCluster cfg points ([0..<nat (K cfg)] ! j) = Some c" using j(2) by simp
    then show "length (Centroid c) = d \<and> Points c = []"
      using assms(2) by (auto simp: seedCluster_def Let_def split: if_splits)
  qed
  then show ?thesis by (simp add: uniform_def assignedDim_def)
qed

lemma iterate_inv:
  "iterate cfg points n cs = Some cs' \<Longrightarrow> \<forall>p\<in>set points. length (Features p) = d \<Longrightarrow>
   uniform d cs \<Longrightarrow> assignedDim d cs \<Longrightarrow> uniform d cs' \<and> assignedDim d cs'"
proof (induction n arbitrary: cs)
  case 0
  then show ?case by simp
next
  case (Suc n)
  from Suc.prems(1) obtain assigned updated b where
    a: "assignPointsToClusters points cs = Some assigned"
    and u: "updateCentroids assigned = Some updated"
    and h: "hasConverged (Tolerance cfg) (copyCentroids cs) updated = Some b"
    by (auto simp: Let_def split: option.splits)
  note ap = assignPointsToClusters_props [OF a]
  note up = updateCentroids_props [OF u]
  have "map (\<lambda>c. length (Centroid c)) assigned = map (\<lambda>c. length (Centroid c)) cs"
  proof -
    have "map length (map Centroid assigned) = map length (map Centroid cs)"
      by (simp only: ap(2))
    then show ?thesis by (simp add: comp_def)
  qed
  then have "uniform d assigned" using Suc.prems(3) by (rule uniform_cong)
  with up(3) have uun: "uniform d updated" by (rule uniform_cong)
  have "set_mset (mset (concat (map Points updated))) = set_mset (mset points)"
    using ap(3) up(2) by simp
  then have "set (concat (map Points updated)) = set points"
    by (simp only: set_mset_mset)
  then have uw: "assignedDim d updated"
    using Suc.prems(2) by (simp only: assignedDim_concat)
  have "iterate cfg points (Suc n) cs = (if b then Some updated else iterate cfg points n updated)"
    by (rule iterate_Suc [OF a u h])
  then show ?case
    using Suc.prems(1) Suc.IH [OF _ Suc.prems(2) uun uw] uun uw
    by (cases b) simp_all
qed

lemma KMeans_inv:
  assumes "KMeans cfg points = Some cs" "\<forall>p\<in>set points. length (Features p) = d"
  shows "uniform d cs \<and> assignedDim d cs"
proof (cases "int (length points) < K cfg")
  case True
  then show ?thesis using assms(1) by (auto simp: KMeans_def uniform_def assignedDim_def)
next
  case False
  then obtain init where i: "initializeClusters cfg points = Some init"
    and it: "iterate cfg points (nat (MaxIter cfg)) init = Some cs"
    using assms(1) by (auto simp: KMeans_def split: option.splits)
  from initializeClusters_inv [OF i assms(2)] iterate_inv [OF it assms(2)]
  show ?thesis by blast
qed

lemma ExtractFeatures_dims:
  "ExtractFeatures points w = Some fs \<Longrightarrow> \<forall>p\<in>set fs. length (Features p) = 4"
  by (auto simp: ExtractFeatures_def Features_windowFeature split: if_splits)

lemma LearnBaseline_sound:
  assumes "LearnBaseline d name points = Some (d', err)" "sound d"
  shows "sound d' \<and> config d' = config d"
proof (cases "int (length points) < WindowSize (config d)")
  case True
  then show ?thesis using assms by (simp add: LearnBaseline_def)
next
  case False
  then obtain fs cs where f: "ExtractFeatures points (WindowSize (config d)) = Some fs"
    and k: "KMeans (clusteringEngine d) fs = Some cs"
    and d': "d' = d\<lparr>baselines := (baselines d)(name \<mapsto> cs)\<rparr>"
    using assms(1) by (auto simp: LearnBaseline_def split: option.splits)
  from KMeans_inv [OF k ExtractFeatures_dims [OF f]]
  show ?thesis using assms(2) by (simp add: d' sound_def)
qed

lemma reachable_sound: "reachable d \<Longrightarrow> sound d"
proof (induction rule: reachable.induct)
  case (new cfg engine)
  show ?case by (simp add: sound_def NewDetector_def)
next
  case (learn d serviceName points d' err)
  then show ?case using LearnBaseline_sound by blast
qed

lemma minDistanceLoop_defined:
  "\<forall>c\<in>set cs. length f \<le> length (Centroid c) \<Longrightarrow> \<exists>m. minDistanceLoop f cs acc = Some m"
  by (induction cs arbitrary: acc) (simp_all add: detectorDistance_def)

lemma wellFormed_uniform_assignedDim: "uniform n cs \<Longrightarrow> assignedDim n cs \<Longrightarrow> wellFormed cs"
  by (simp add: uniform_def assignedDim_def wellFormed_def list_all_iff)

lemma detectMLAnomalies_defined:
  assumes "0 \<le> WindowSize (config d)" "uniform 4 cs" "assignedDim 4 cs"
  shows "\<exists>as. detectMLAnomalies d name points cs now = Some as"
proof -
  let ?fs = "map (windowFeature points (nat (WindowSize (config d))))
                 [nat (WindowSize (config d))..<length points]"
  have f: "ExtractFeatures points (WindowSize (config d)) = Some ?fs"
    using assms(1) by (rule ExtractFeatures_Some)
  show ?thesis
  proof (cases "int (length points) < WindowSize (config d) \<or> length ?fs = 0")
    case True
    then show ?thesis using f by (auto simp: detectMLAnomalies_def)
  next
    case False
    let ?latest = "?fs ! (length ?fs - 1)"
    have "length ?fs \<noteq> 0" using False by blast
    then have "length ?fs - 1 < length ?fs" by linarith
    then have "?latest \<in> set ?fs" by (rule nth_mem)
    then have "length (Features ?latest) = 4"
      using ExtractFeatures_dims [OF f] by blast
    then have "\<forall>c\<in>set cs. length (Features ?latest) \<le> length (Centroid c)"
      using assms(2) by (simp add: uniform_def)
    from minDistanceLoop_defined [OF this, of PosInf]
    obtain m where m: "minDistanceLoop (Features ?latest) cs PosInf = Some m" by blast
    have t: "calculateDynamicThreshold (config d) cs = Some (dynamicThreshold (config d) cs)"
      by (rule calculateDynamicThreshold_spec [OF wellFormed_uniform_assignedDim [OF assms(2,3)]])
    show ?thesis
      using False f m t unfolding detectMLAnomalies_def Let_def
      by (cases "greaterThan64 m (dynamicThreshold (config d) cs)") simp_all
  qed
qed

lemma DetectAnomalies_defined:
  assumes "sound d" "0 \<le> WindowSize (config d)"
  shows "\<exists>as. DetectAnomalies d name points now = Some (as, None)"
proof (cases "baselines d name")
  case None
  then show ?thesis by (simp add: DetectAnomalies_def)
next
  case (Some cs)
  then have "uniform 4 cs" "assignedDim 4 cs" using assms(1) by (auto simp: sound_def)
  from detectMLAnomalies_defined [OF assms(2) this]
  obtain as where "detectMLAnomalies d name points cs now = Some as" by blast
  then show ?thesis using Some by (simp add: DetectAnomalies_def)
qed

lemma DetectAnomalies_error_nil:
  "DetectAnomalies d name points now = Some (as, err) \<Longrightarrow> err = None"
  by (auto simp: DetectAnomalies_def Let_def split: option.splits)


lemma LearnBaseline_few_features:
  assumes "0 \<le> WindowSize (config d)" "WindowSize (config d) \<le> int (length points)"
    and "int (length points) - WindowSize (config d) < K (clusteringEngine d)"
  shows "LearnBaseline d name points = Some (d\<lparr>baselines := (baselines d)(name \<mapsto> [])\<rparr>, None)"
proof -
  let ?features = "map (windowFeature points (nat (WindowSize (config d))))
                       [nat (WindowSize (config d))..<length points]"
  have f: "ExtractFeatures points (WindowSize (config d)) = Some ?features"
    using assms(1) by (rule ExtractFeatures_Some)
  have "int (length ?features) < K (clusteringEngine d)"
    using assms by (simp add: of_nat_diff nat_le_iff)
  then have "KMeans (clusteringEngine d) ?features = Some []"
    by (simp add: KMeans_def)
  then show ?thesis
    using assms(2) f by (simp add: LearnBaseline_def)
qed

lemma DetectAnomalies_empty_baseline:
  assumes "baselines d name = Some []" "0 \<le> WindowSize (config d)"
    and "WindowSize (config d) < int (length points)"
  shows "DetectAnomalies d name points now
           = Some (detectStaticAnomalies (config d) name points
                     @ [behavioralAnomaly name PosInf 1 now], None)"
proof -
  let ?fs = "map (windowFeature points (nat (WindowSize (config d))))
                 [nat (WindowSize (config d))..<length points]"
  have f: "ExtractFeatures points (WindowSize (config d)) = Some ?fs"
    using assms(2) by (rule ExtractFeatures_Some)
  have ne: "length ?fs \<noteq> 0" using assms(2,3) by simp
  have t: "calculateDynamicThreshold (config d) [] = Some 1"
    by (simp add: calculateDynamicThreshold_def)
  have "detectMLAnomalies d name points [] now = Some [behavioralAnomaly name PosInf 1 now]"
    unfolding detectMLAnomalies_def Let_def f t using assms(3) ne by simp
  then show ?thesis
    using assms(1) by (simp add: DetectAnomalies_def)
qed

lemma LearnBaseline_enough_features:
  assumes "0 \<le> WindowSize (config d)" "1 \<le> K (clusteringEngine d)"
    and "1 \<le> MaxIter (clusteringEngine d)"
    and "WindowSize (config d) + K (clusteringEngine d) \<le> int (length points)"
  shows "\<exists>cs. LearnBaseline d name points = Some (d\<lparr>baselines := (baselines d)(name \<mapsto> cs)\<rparr>, None)
           \<and> length cs = nat (K (clusteringEngine d))"
proof -
  let ?features = "map (windowFeature points (nat (WindowSize (config d))))
                       [nat (WindowSize (config d))..<length points]"
  have f: "ExtractFeatures points (WindowSize (config d)) = Some ?features"
    using assms(1) by (rule ExtractFeatures_Some)
  have len: "K (clusteringEngine d) \<le> int (length ?features)"
    using assms by (simp add: of_nat_diff nat_le_iff)
  have dims: "\<forall>p\<in>set ?features. length (Features p) = 4"
    by (rule ExtractFeatures_dims [OF f])
  from KMeans_partition_aux [OF assms(2) len assms(3) dims]
  obtain cs where "KMeans (clusteringEngine d) ?features = Some cs"
    "length cs = nat (K (clusteringEngine d))" by blast
  moreover from this have "LearnBaseline d name points
      = Some (d\<lparr>baselines := (baselines d)(name \<mapsto> cs)\<rparr>, None)"
    using assms f by (simp add: LearnBaseline_def)
  ultimately show ?thesis by blast
qed

lemma detectMLAnomalies_types:
  "detectMLAnomalies d name points cs now = Some as \<Longrightarrow>
   \<forall>a\<in>set as. Type a = ''behavioral_anomaly''"
  by (auto simp: detectMLAnomalies_def Let_def behavioralAnomaly_def split: if_splits option.splits)

lemma filter_static_error_rate:
  assumes "2 \<le> length points"
  shows "filter (\<lambda>a. Type a = ErrorRateHigh) (detectStaticAnomalies cfg name points)
         = (if Value (last points) > ErrorRateThreshold cfg
            then [errorRateAnomaly cfg name points] else [])"
proof -
  have ne: "points \<noteq> []" using assms by auto
  then have "points ! (length points - 1) = last points"
    by (simp add: last_conv_nth)
  then show ?thesis
    using assms ne
    by (simp add: detectStaticAnomalies_def isHighErrorRate_def trafficSpikeAnomaly_def
        errorRateAnomaly_def TrafficSpike_def ErrorRateHigh_def Let_def)
qed

lemma DetectAnomalies_error_rate:
  assumes "DetectAnomalies d name points now = Some (as, err)" "2 \<le> length points"
  shows "filter (\<lambda>a. Type a = ErrorRateHigh) as
         = (if Value (last points) > ErrorRateThreshold (config d)
            then [errorRateAnomaly (config d) name points] else [])"
proof (cases "baselines d name")
  case None
  then have "as = detectStaticAnomalies (config d) name points"
    using assms(1) by (simp add: DetectAnomalies_def)
  then show ?thesis
    using filter_static_error_rate [OF assms(2)] by simp
next
  case (Some cs)
  then obtain ml where ml: "detectMLAnomalies d name points cs now = Some ml"
    and as: "as = detectStaticAnomalies (config d) name points @ ml"
    using assms(1) by (auto simp: DetectAnomalies_def split: option.splits)
  have "filter (\<lambda>a. Type a = ErrorRateHigh) ml = []"
    using detectMLAnomalies_types [OF ml] by (auto simp: filter_empty_conv ErrorRateHigh_def)
  then show ?thesis
    using filter_static_error_rate [OF assms(2)] by (simp add: as)
qed

section \<open>The claims\<close>

text \<open>Each claim of the specification is stated before its theorem. Where the code
  does not do what a claim says, the claim as stated is refuted at a concrete input
  first, and the statement that holds follows.\<close>

subsection \<open>GetLatestN\<close>

text \<open>
  Claim C5, as stated: for every series built by any sequence of appended samples and
  every requested count \<open>n\<close>, \<^verbatim>\<open>GetLatestN\<close> returns exactly the last
  \<open>min(n, count)\<close> samples in insertion order, and the empty sequence when the series is
  absent. This fails for a negative \<open>n\<close>: with one stored sample and \<open>n = -1\<close> the test
  \<^verbatim>\<open>len(points) <= n\<close> is false and \<^verbatim>\<open>points[len(points)-n:]\<close> is \<^verbatim>\<open>points[2:]\<close> on a
  slice of length 1, a panic.
\<close>

theorem GetLatestN_negative_count_panics:
  "GetLatestN
     (built [\<lparr>callService = ''svc'', callMetric = ''m'', callValue = 1,
              callLabels = Map.empty, callNow = 0\<rparr>])
     ''svc'' ''m'' (- 1) = None"
  by (simp add: GetLatestN_def GetSeries_def built_def applyCall_def Store_def NewStorage_def
      seriesKey_def)

text \<open>
  Claim C5, amended: for every store built by a sequence of \<^verbatim>\<open>Store\<close> calls and every
  count \<open>n \<ge> 0\<close>, \<^verbatim>\<open>GetLatestN\<close> returns exactly the last \<open>min(n, count)\<close> of the
  samples appended under the composite key of the queried (service, metric) pair, in
  the order of the calls; and for every store and every \<open>n\<close>, it returns the empty
  sequence when the series is absent.
\<close>

theorem GetLatestN_last_samples:
  assumes "0 \<le> n"
  shows "GetLatestN (built calls) serviceName metric n =
           Some (drop (length (appended calls serviceName metric)
                        - nat (min n (int (length (appended calls serviceName metric)))))
                      (appended calls serviceName metric))
         \<and> (GetSeries s serviceName metric = None \<longrightarrow> GetLatestN s serviceName metric n' = Some [])"
proof
  show "GetLatestN (built calls) serviceName metric n =
           Some (drop (length (appended calls serviceName metric)
                        - nat (min n (int (length (appended calls serviceName metric)))))
                      (appended calls serviceName metric))"
    using GetLatestN_pointsAt [OF assms, of "built calls" serviceName metric]
    by (simp only: pointsAt_built)
next
  show "GetSeries s serviceName metric = None \<longrightarrow> GetLatestN s serviceName metric n' = Some []"
    by (simp add: GetLatestN_def)
qed

theorem GetLatestN_last_samples_witness:
  "GetLatestN
     (built [\<lparr>callService = ''a'', callMetric = ''m'', callValue = 1, callLabels = Map.empty, callNow = 10\<rparr>,
             \<lparr>callService = ''b'', callMetric = ''m'', callValue = 2, callLabels = Map.empty, callNow = 11\<rparr>,
             \<lparr>callService = ''a'', callMetric = ''m'', callValue = 3, callLabels = Map.empty, callNow = 12\<rparr>,
             \<lparr>callService = ''a'', callMetric = ''m'', callValue = 4, callLabels = Map.empty, callNow = 13\<rparr>])
     ''a'' ''m'' 2
   = Some [\<lparr>Timestamp = 12, Value = 3, Labels = Map.empty\<rparr>,
           \<lparr>Timestamp = 13, Value = 4, Labels = Map.empty\<rparr>]
   \<and> GetSeries NewStorage ''a'' ''m'' = None
   \<and> GetLatestN NewStorage ''a'' ''m'' (- 1) = Some []"
proof -
  have h: "(0::int) \<le> 2" by simp
  have a: "GetSeries NewStorage ''a'' ''m'' = None"
    by (simp add: GetSeries_def NewStorage_def)
  show ?thesis
    using GetLatestN_last_samples [OF h,
        of "[\<lparr>callService = ''a'', callMetric = ''m'', callValue = 1, callLabels = Map.empty, callNow = 10\<rparr>,
             \<lparr>callService = ''b'', callMetric = ''m'', callValue = 2, callLabels = Map.empty, callNow = 11\<rparr>,
             \<lparr>callService = ''a'', callMetric = ''m'', callValue = 3, callLabels = Map.empty, callNow = 12\<rparr>,
             \<lparr>callService = ''a'', callMetric = ''m'', callValue = 4, callLabels = Map.empty, callNow = 13\<rparr>]"
           "''a''" "''m''" NewStorage "- 1"] a
    by (simp add: appended_def pointOf_def seriesKey_def)
qed

subsection \<open>GetTimeRange\<close>

text \<open>
  Claim C6: for every stored series and every pair (start, end), \<^verbatim>\<open>GetTimeRange\<close>
  returns exactly the stored samples with \<open>start < timestamp < end\<close>, both bounds
  excluded, in stored order, and the empty sequence when the series is absent.
\<close>

theorem GetTimeRange_open_interval:
  "GetTimeRange s serviceName metric start endt =
     (case GetSeries s serviceName metric of
        None \<Rightarrow> []
      | Some ts \<Rightarrow> filter (\<lambda>p. start < Timestamp p \<and> Timestamp p < endt) (SeriesPoints ts))"
  by (simp add: GetTimeRange_def range_loop split: option.splits)

theorem GetTimeRange_open_interval_witness:
  "GetTimeRange
     \<lparr>series = [seriesKey ''test'' ''metric'' \<mapsto>
        \<lparr>SeriesServiceName = ''test'', SeriesMetric = ''metric'',
         SeriesPoints = [\<lparr>Timestamp = 1, Value = 1, Labels = Map.empty\<rparr>,
                         \<lparr>Timestamp = 2, Value = 2, Labels = Map.empty\<rparr>,
                         \<lparr>Timestamp = 3, Value = 3, Labels = Map.empty\<rparr>,
                         \<lparr>Timestamp = 4, Value = 4, Labels = Map.empty\<rparr>]\<rparr>]\<rparr>
     ''test'' ''metric'' 1 4
   = [\<lparr>Timestamp = 2, Value = 2, Labels = Map.empty\<rparr>,
      \<lparr>Timestamp = 3, Value = 3, Labels = Map.empty\<rparr>]
   \<and> GetTimeRange NewStorage ''test'' ''metric'' 1 4 = []"
  using GetTimeRange_open_interval
          [of "\<lparr>series = [seriesKey ''test'' ''metric'' \<mapsto>
                  \<lparr>SeriesServiceName = ''test'', SeriesMetric = ''metric'',
                   SeriesPoints = [\<lparr>Timestamp = 1, Value = 1, Labels = Map.empty\<rparr>,
                                   \<lparr>Timestamp = 2, Value = 2, Labels = Map.empty\<rparr>,
                                   \<lparr>Timestamp = 3, Value = 3, Labels = Map.empty\<rparr>,
                                   \<lparr>Timestamp = 4, Value = 4, Labels = Map.empty\<rparr>]\<rparr>]\<rparr>"
              "''test''" "''metric''" 1 4]
        GetTimeRange_open_interval [of NewStorage "''test''" "''metric''" 1 4]
  by (simp add: GetSeries_def NewStorage_def)

subsection \<open>calculateVolatility\<close>

text \<open>
  Claim C2, as stated: for every window of at least 2 values \<^verbatim>\<open>calculateVolatility\<close>
  returns the sample standard deviation (denominator \<open>n - 1\<close>) of the relative deltas.
  The code divides the sum of squared deviations by the number of deltas: for the values
  1, 2, 2 the deltas are 1 and 0, the code returns \<open>sqrt (1/4) = 1/2\<close>, and the sample
  standard deviation is \<open>sqrt (1/2)\<close>.
\<close>

theorem calculateVolatility_not_sample_stddev:
  "calculateVolatility [\<lparr>Timestamp = 0, Value = 1, Labels = Map.empty\<rparr>,
                        \<lparr>Timestamp = 1, Value = 2, Labels = Map.empty\<rparr>,
                        \<lparr>Timestamp = 2, Value = 2, Labels = Map.empty\<rparr>]
   \<noteq> sampleStdDev (relativeDeltas [1, 2, 2])"
proof -
  have code: "calculateVolatility [\<lparr>Timestamp = 0, Value = 1, Labels = Map.empty\<rparr>,
                        \<lparr>Timestamp = 1, Value = 2, Labels = Map.empty\<rparr>,
                        \<lparr>Timestamp = 2, Value = 2, Labels = Map.empty\<rparr>] = 1 / 2"
    by (simp add: calculateVolatility_population relativeDeltas_def populationStdDev_def
        listMean_def upt_conv_Cons power2_eq_square real_sqrt_divide)
  have spec: "sampleStdDev (relativeDeltas [1, 2, 2]) = sqrt (1 / 2)"
    by (simp add: relativeDeltas_def sampleStdDev_def listMean_def upt_conv_Cons power2_eq_square)
  have "sqrt (1 / 2) \<noteq> 1 / 2"
  proof
    assume a: "sqrt (1 / 2) = 1 / 2"
    have "(sqrt (1 / 2))\<^sup>2 = (1 / 2 :: real)"
      by (rule real_sqrt_pow2) simp
    then have "(1 / 2 :: real)\<^sup>2 = 1 / 2"
      unfolding a .
    then show False
      by (simp add: power2_eq_square)
  qed
  then show ?thesis
    using code spec by simp
qed

text \<open>
  Claim C2, amended: for every window \<^verbatim>\<open>calculateVolatility\<close> returns the population
  standard deviation (denominator: the number of deltas) of the relative deltas
  \<open>(v[i] - v[i-1]) / v[i-1]\<close> of consecutive values, a delta with denominator 0 being 0;
  it returns 0 when fewer than 2 deltas exist, so also for windows of fewer than 2
  points.
\<close>

theorem calculateVolatility_population_stddev:
  "calculateVolatility points = populationStdDev (relativeDeltas (map Value points))
   \<and> (length (relativeDeltas (map Value points)) < 2 \<longrightarrow> calculateVolatility points = 0)"
proof
  show "calculateVolatility points = populationStdDev (relativeDeltas (map Value points))"
    by (rule calculateVolatility_population)
next
  show "length (relativeDeltas (map Value points)) < 2 \<longrightarrow> calculateVolatility points = 0"
  proof
    assume "length (relativeDeltas (map Value points)) < 2"
    then consider "relativeDeltas (map Value points) = []"
      | x where "relativeDeltas (map Value points) = [x]"
      by (cases "relativeDeltas (map Value points)") (auto simp: length_Suc_conv)
    then show "calculateVolatility points = 0"
      by cases (simp_all add: calculateVolatility_population populationStdDev_single,
                simp add: populationStdDev_def)
  qed
qed

theorem calculateVolatility_population_stddev_witness:
  "calculateVolatility [\<lparr>Timestamp = 0, Value = 0, Labels = Map.empty\<rparr>,
                        \<lparr>Timestamp = 1, Value = 1, Labels = Map.empty\<rparr>,
                        \<lparr>Timestamp = 2, Value = 2, Labels = Map.empty\<rparr>,
                        \<lparr>Timestamp = 3, Value = 2, Labels = Map.empty\<rparr>]
     = populationStdDev [0, 1, 0]
   \<and> length (relativeDeltas (map Value [\<lparr>Timestamp = 0, Value = 5, Labels = Map.empty\<rparr>,
                                          \<lparr>Timestamp = 1, Value = 7, Labels = Map.empty\<rparr>])) < 2
   \<and> calculateVolatility [\<lparr>Timestamp = 0, Value = 5, Labels = Map.empty\<rparr>,
                          \<lparr>Timestamp = 1, Value = 7, Labels = Map.empty\<rparr>] = 0"
  using calculateVolatility_population_stddev
          [of "[\<lparr>Timestamp = 0, Value = 0, Labels = Map.empty\<rparr>,
                \<lparr>Timestamp = 1, Value = 1, Labels = Map.empty\<rparr>,
                \<lparr>Timestamp = 2, Value = 2, Labels = Map.empty\<rparr>,
                \<lparr>Timestamp = 3, Value = 2, Labels = Map.empty\<rparr>]"]
        calculateVolatility_population_stddev
          [of "[\<lparr>Timestamp = 0, Value = 5, Labels = Map.empty\<rparr>,
                \<lparr>Timestamp = 1, Value = 7, Labels = Map.empty\<rparr>]"]
  by (simp add: relativeDeltas_def upt_conv_Cons)

subsection \<open>KMeans with too few points\<close>

text \<open>
  Claim C7: for every input with \<open>len(points) < K\<close>, \<^verbatim>\<open>KMeans\<close> returns an empty result
  and never raises or crashes, and callers observe this as "no baseline available", not
  as a fatal error. The first half holds of \<^verbatim>\<open>KMeans\<close> for every input (lemma
  \<open>KMeans_too_few_points\<close>), and its caller \<^verbatim>\<open>LearnBaseline\<close> does not fail. The second
  half does not hold of the callers. With window size 2 and \<open>K = 3\<close>, \<^verbatim>\<open>LearnBaseline\<close>
  on three points extracts one feature vector, \<^verbatim>\<open>KMeans\<close> returns the empty result, and
  \<^verbatim>\<open>LearnBaseline\<close> registers it under the key of the service and returns no error.
  \<^verbatim>\<open>DetectAnomalies\<close> tests only whether the key is present and so takes the service for
  one that has a baseline: on four points of value 1 it emits a behavioral anomaly of
  infinite severity, where the same call on the detector that has no baseline for the
  service emits nothing. The missed case is the one of claim C1: no caller checks for
  the empty result.
\<close>

theorem insufficient_points_registered_as_baseline:
  "ExtractFeatures
     [\<lparr>Timestamp = 1, Value = 1, Labels = Map.empty\<rparr>,
      \<lparr>Timestamp = 2, Value = 1, Labels = Map.empty\<rparr>,
      \<lparr>Timestamp = 3, Value = 1, Labels = Map.empty\<rparr>] 2
     = Some [windowFeature
               [\<lparr>Timestamp = 1, Value = 1, Labels = Map.empty\<rparr>,
                \<lparr>Timestamp = 2, Value = 1, Labels = Map.empty\<rparr>,
                \<lparr>Timestamp = 3, Value = 1, Labels = Map.empty\<rparr>] 2 2]
   \<and> KMeans \<lparr>K = 3, MaxIter = 100, Tolerance = 1 / 100, FeatureNames = []\<rparr>
        [windowFeature
           [\<lparr>Timestamp = 1, Value = 1, Labels = Map.empty\<rparr>,
            \<lparr>Timestamp = 2, Value = 1, Labels = Map.empty\<rparr>,
            \<lparr>Timestamp = 3, Value = 1, Labels = Map.empty\<rparr>] 2 2] = Some []
   \<and> LearnBaseline
        (NewDetector
           \<lparr>TrafficSpikeThreshold = 2, ErrorRateThreshold = 5, LatencyThreshold = 1000,
            RetryThreshold = 100, TimeoutThreshold = 10, WindowSize = 2, SensitivityLevel = 2\<rparr>
           \<lparr>K = 3, MaxIter = 100, Tolerance = 1 / 100, FeatureNames = []\<rparr>)
        ''svc''
        [\<lparr>Timestamp = 1, Value = 1, Labels = Map.empty\<rparr>,
         \<lparr>Timestamp = 2, Value = 1, Labels = Map.empty\<rparr>,
         \<lparr>Timestamp = 3, Value = 1, Labels = Map.empty\<rparr>]
     = Some (\<lparr>config =
                \<lparr>TrafficSpikeThreshold = 2, ErrorRateThreshold = 5, LatencyThreshold = 1000,
                 RetryThreshold = 100, TimeoutThreshold = 10, WindowSize = 2, SensitivityLevel = 2\<rparr>,
              clusteringEngine = \<lparr>K = 3, MaxIter = 100, Tolerance = 1 / 100, FeatureNames = []\<rparr>,
              baselines = [''svc'' \<mapsto> []]\<rparr>, None)
   \<and> DetectAnomalies
        (NewDetector
           \<lparr>TrafficSpikeThreshold = 2, ErrorRateThreshold = 5, LatencyThreshold = 1000,
            RetryThreshold = 100, TimeoutThreshold = 10, WindowSize = 2, SensitivityLevel = 2\<rparr>
           \<lparr>K = 3, MaxIter = 100, Tolerance = 1 / 100, FeatureNames = []\<rparr>)
        ''svc''
        [\<lparr>Timestamp = 4, Value = 1, Labels = Map.empty\<rparr>,
         \<lparr>Timestamp = 5, Value = 1, Labels = Map.empty\<rparr>,
         \<lparr>Timestamp = 6, Value = 1, Labels = Map.empty\<rparr>,
         \<lparr>Timestamp = 7, Value = 1, Labels = Map.empty\<rparr>] 8
     = Some ([], None)
   \<and> DetectAnomalies
        \<lparr>config =
           \<lparr>TrafficSpikeThreshold = 2, ErrorRateThreshold = 5, LatencyThreshold = 1000,
            RetryThreshold = 100, TimeoutThreshold = 10, WindowSize = 2, SensitivityLevel = 2\<rparr>,
         clusteringEngine = \<lparr>K = 3, MaxIter = 100, Tolerance = 1 / 100, FeatureNames = []\<rparr>,
         baselines = [''svc'' \<mapsto> []]\<rparr>
        ''svc''
        [\<lparr>Timestamp = 4, Value = 1, Labels = Map.empty\<rparr>,
         \<lparr>Timestamp = 5, Value = 1, Labels = Map.empty\<rparr>,
         \<lparr>Timestamp = 6, Value = 1, Labels = Map.empty\<rparr>,
         \<lparr>Timestamp = 7, Value = 1, Labels = Map.empty\<rparr>] 8
     = Some ([\<lparr>Type = ''behavioral_anomaly'', ServiceName = ''svc'', Namespace = [],
               Severity = PosInf,
               Description = (''Behavioral anomaly detected (distance: %.2f)'', PosInf),
               AnomalyTimestamp = 8,
               Metrics = [''anomaly_distance'' \<mapsto> PosInf],
               AnomalyLabels = Map.empty\<rparr>], None)"
proof -
  let ?cfg = "\<lparr>TrafficSpikeThreshold = 2, ErrorRateThreshold = 5, LatencyThreshold = 1000,
            RetryThreshold = 100, TimeoutThreshold = 10, WindowSize = 2, SensitivityLevel = 2\<rparr>"
  let ?engine = "\<lparr>K = 3, MaxIter = 100, Tolerance = 1 / 100, FeatureNames = []\<rparr>"
  let ?d0 = "NewDetector ?cfg ?engine"
  let ?d1 = "\<lparr>config = ?cfg, clusteringEngine = ?engine, baselines = [''svc'' \<mapsto> []]\<rparr>"
  let ?p3 = "[\<lparr>Timestamp = 1, Value = 1, Labels = Map.empty\<rparr>,
         \<lparr>Timestamp = 2, Value = 1, Labels = Map.empty\<rparr>,
         \<lparr>Timestamp = 3, Value = 1, Labels = Map.empty\<rparr>]"
  let ?p4 = "[\<lparr>Timestamp = 4, Value = 1, Labels = Map.empty\<rparr>,
         \<lparr>Timestamp = 5, Value = 1, Labels = Map.empty\<rparr>,
         \<lparr>Timestamp = 6, Value = 1, Labels = Map.empty\<rparr>,
         \<lparr>Timestamp = 7, Value = 1, Labels = Map.empty\<rparr>]"
  have f: "ExtractFeatures ?p3 2 = Some [windowFeature ?p3 2 2]"
    by (simp add: ExtractFeatures_def upt_conv_Cons numeral_2_eq_2)
  have k: "KMeans ?engine [windowFeature ?p3 2 2] = Some []"
    by (rule KMeans_too_few_points) simp
  have "LearnBaseline ?d0 ''svc'' ?p3
          = Some (?d0\<lparr>baselines := (baselines ?d0)(''svc'' \<mapsto> [])\<rparr>, None)"
    by (rule LearnBaseline_few_features) (simp_all add: NewDetector_def)
  then have l: "LearnBaseline ?d0 ''svc'' ?p3 = Some (?d1, None)"
    by (simp add: NewDetector_def)
  have static: "detectStaticAnomalies ?cfg ''svc'' ?p4 = []"
    by (simp add: detectStaticAnomalies_def isTrafficSpike_def isHighErrorRate_def
        detectorMean_def Let_def)
  have n: "DetectAnomalies ?d0 ''svc'' ?p4 8 = Some ([], None)"
    using static by (simp add: DetectAnomalies_def NewDetector_def)
  have b: "baselines ?d1 ''svc'' = Some []" by simp
  have "DetectAnomalies ?d1 ''svc'' ?p4 8
          = Some (detectStaticAnomalies (config ?d1) ''svc'' ?p4
                    @ [behavioralAnomaly ''svc'' PosInf 1 8], None)"
    by (rule DetectAnomalies_empty_baseline [OF b]) simp_all
  then have e: "DetectAnomalies ?d1 ''svc'' ?p4 8
          = Some ([\<lparr>Type = ''behavioral_anomaly'', ServiceName = ''svc'', Namespace = [],
               Severity = PosInf,
               Description = (''Behavioral anomaly detected (distance: %.2f)'', PosInf),
               AnomalyTimestamp = 8,
               Metrics = [''anomaly_distance'' \<mapsto> PosInf],
               AnomalyLabels = Map.empty\<rparr>], None)"
    using static by (simp add: behavioralAnomaly_def)
  show ?thesis
    using f k l n e by (intro conjI)
qed

subsection \<open>The partition property\<close>

text \<open>
  Claim C4, as stated: for every input with \<open>len(points) \<ge> K\<close> and \<open>K \<ge> 1\<close>, whatever
  \<open>MaxIter\<close> is configured, the returned clusters partition the input. With
  \<open>MaxIter = 0\<close> the loop body never runs: the seeded clusters are returned with no
  assigned point, so the one input point is in no cluster.
\<close>

theorem KMeans_no_iteration_no_assignment:
  "KMeans \<lparr>K = 1, MaxIter = 0, Tolerance = 0, FeatureNames = []\<rparr>
          [\<lparr>Features = [1], Label = [], Original = None\<rparr>]
   = Some [\<lparr>Centroid = [1], Points = []\<rparr>]"
  by (simp add: KMeans_def initializeClusters_def seedCluster_def)

text \<open>
  Claim C4, amended: for every input of feature vectors of one dimension \<open>d\<close> with
  \<open>len(points) \<ge> K\<close>, \<open>K \<ge> 1\<close> and \<open>MaxIter \<ge> 1\<close>, \<^verbatim>\<open>KMeans\<close> returns \<open>K\<close> clusters
  that partition the input: the assigned points of all clusters together are the input
  points, each input occurrence exactly once (equality of multisets), and every
  returned centroid has dimension \<open>d\<close>.
\<close>

theorem KMeans_partition:
  assumes "1 \<le> K cfg" and "K cfg \<le> int (length points)" and "1 \<le> MaxIter cfg"
    and "\<forall>p\<in>set points. length (Features p) = d"
  shows "\<exists>clusters. KMeans cfg points = Some clusters
           \<and> length clusters = nat (K cfg)
           \<and> mset (concat (map Points clusters)) = mset points
           \<and> (\<forall>c\<in>set clusters. length (Centroid c) = d)"
  using KMeans_partition_aux [OF assms] by (simp add: uniform_def)

theorem KMeans_partition_witness:
  "\<exists>clusters.
     KMeans \<lparr>K = 2, MaxIter = 10, Tolerance = 1 / 10, FeatureNames = []\<rparr>
       [\<lparr>Features = [1, 1], Label = [], Original = None\<rparr>,
        \<lparr>Features = [2, 2], Label = [], Original = None\<rparr>,
        \<lparr>Features = [10, 10], Label = [], Original = None\<rparr>] = Some clusters
     \<and> length clusters = 2
     \<and> mset (concat (map Points clusters))
         = mset [\<lparr>Features = [1, 1], Label = [], Original = None\<rparr>,
                 \<lparr>Features = [2, 2], Label = [], Original = None\<rparr>,
                 \<lparr>Features = [10, 10], Label = [], Original = None\<rparr>]
     \<and> map (\<lambda>c. length (Centroid c)) clusters = [2, 2]"
proof -
  let ?cfg = "\<lparr>K = 2, MaxIter = 10, Tolerance = 1 / 10, FeatureNames = []\<rparr>"
  let ?pts = "[\<lparr>Features = [1, 1], Label = [], Original = None\<rparr>,
               \<lparr>Features = [2, 2], Label = [], Original = None\<rparr>,
               \<lparr>Features = [10 :: real, 10], Label = [], Original = None\<rparr>]"
  have h1: "1 \<le> K ?cfg" by simp
  have h2: "K ?cfg \<le> int (length ?pts)" by simp
  have h3: "1 \<le> MaxIter ?cfg" by simp
  have h4: "\<forall>p\<in>set ?pts. length (Features p) = 2" by simp
  from KMeans_partition [OF h1 h2 h3 h4]
  obtain clusters where k: "KMeans ?cfg ?pts = Some clusters"
    and len: "length clusters = nat (K ?cfg)"
    and part: "mset (concat (map Points clusters)) = mset ?pts"
    and dims: "\<forall>c\<in>set clusters. length (Centroid c) = 2"
    by blast
  from len obtain a b where "clusters = [a, b]"
    by (cases clusters; cases "tl clusters") auto
  then have "map (\<lambda>c. length (Centroid c)) clusters = [2, 2]"
    using dims by simp
  then show ?thesis
    using k len part by auto
qed

subsection \<open>Determinism and seeding\<close>

text \<open>
  Claim C8: \<^verbatim>\<open>KMeans\<close> is deterministic. Its embedding is a function of the
  configuration and the input alone (the source reads no clock, no random source and
  iterates over no map), and of the configuration only \<open>K\<close>, \<open>MaxIter\<close> and
  \<open>Tolerance\<close> matter: two runs that agree on these and on the input return the same
  clusters, and two runs on inputs that have the same feature vectors in the same order
  return the same centroids and the same assignment of feature vectors. For
  \<open>1 \<le> K \<le> len(points)\<close> the initial centroid \<open>i\<close> is the feature vector at index
  \<open>i * len(points) / K\<close>, and the initial clusters have no assigned point.
\<close>

theorem KMeans_deterministic:
  "(K cfg' = K cfg \<and> MaxIter cfg' = MaxIter cfg \<and> Tolerance cfg' = Tolerance cfg
      \<longrightarrow> KMeans cfg' points = KMeans cfg points
          \<and> (map Features points' = map Features points
              \<longrightarrow> map_option (map featuresOnlyCluster) (KMeans cfg' points')
                    = map_option (map featuresOnlyCluster) (KMeans cfg points)))
   \<and> (1 \<le> K cfg \<and> K cfg \<le> int (length points)
      \<longrightarrow> (\<exists>clusters. initializeClusters cfg points = Some clusters
             \<and> length clusters = nat (K cfg)
             \<and> (\<forall>i<nat (K cfg).
                   Centroid (clusters ! i)
                     = Features (points ! nat (int i * int (length points) div K cfg))
                   \<and> Points (clusters ! i) = [])))"
proof (intro conjI impI)
  assume "K cfg' = K cfg \<and> MaxIter cfg' = MaxIter cfg \<and> Tolerance cfg' = Tolerance cfg"
  then show "KMeans cfg' points = KMeans cfg points"
    by (intro KMeans_cong) simp_all
next
  assume "K cfg' = K cfg \<and> MaxIter cfg' = MaxIter cfg \<and> Tolerance cfg' = Tolerance cfg"
    and "map Features points' = map Features points"
  then show "map_option (map featuresOnlyCluster) (KMeans cfg' points')
               = map_option (map featuresOnlyCluster) (KMeans cfg points)"
    by (intro KMeans_features_only) simp_all
next
  assume "1 \<le> K cfg \<and> K cfg \<le> int (length points)"
  then have "initializeClusters cfg points = Some (map (seed cfg points) [0..<nat (K cfg)])"
    by (simp add: initializeClusters_seeds)
  then show "\<exists>clusters. initializeClusters cfg points = Some clusters
             \<and> length clusters = nat (K cfg)
             \<and> (\<forall>i<nat (K cfg).
                   Centroid (clusters ! i)
                     = Features (points ! nat (int i * int (length points) div K cfg))
                   \<and> Points (clusters ! i) = [])"
    by (simp add: seed_def)
qed

theorem KMeans_deterministic_witness:
  "KMeans \<lparr>K = 1, MaxIter = 0, Tolerance = 0, FeatureNames = [''mean'']\<rparr>
          [\<lparr>Features = [1], Label = [], Original = None\<rparr>]
     = KMeans \<lparr>K = 1, MaxIter = 0, Tolerance = 0, FeatureNames = []\<rparr>
          [\<lparr>Features = [1], Label = [], Original = None\<rparr>]
   \<and> map_option (map featuresOnlyCluster)
        (KMeans \<lparr>K = 1, MaxIter = 5, Tolerance = 0, FeatureNames = []\<rparr>
           [\<lparr>Features = [1], Label = ''a'', Original = None\<rparr>,
            \<lparr>Features = [2], Label = ''b'', Original = None\<rparr>])
     = map_option (map featuresOnlyCluster)
        (KMeans \<lparr>K = 1, MaxIter = 5, Tolerance = 0, FeatureNames = []\<rparr>
           [\<lparr>Features = [1], Label = [], Original = None\<rparr>,
            \<lparr>Features = [2], Label = [], Original = None\<rparr>])
   \<and> (\<exists>clusters.
         initializeClusters \<lparr>K = 2, MaxIter = 10, Tolerance = 0, FeatureNames = []\<rparr>
           [\<lparr>Features = [1], Label = [], Original = None\<rparr>,
            \<lparr>Features = [2], Label = [], Original = None\<rparr>,
            \<lparr>Features = [3], Label = [], Original = None\<rparr>] = Some clusters
         \<and> length clusters = 2
         \<and> Centroid (clusters ! 0) = [1] \<and> Centroid (clusters ! 1) = [2])"
proof (intro conjI)
  show "KMeans \<lparr>K = 1, MaxIter = 0, Tolerance = 0, FeatureNames = [''mean'']\<rparr>
          [\<lparr>Features = [1], Label = [], Original = None\<rparr>]
     = KMeans \<lparr>K = 1, MaxIter = 0, Tolerance = 0, FeatureNames = []\<rparr>
          [\<lparr>Features = [1], Label = [], Original = None\<rparr>]"
    using KMeans_deterministic
        [of "\<lparr>K = 1, MaxIter = 0, Tolerance = 0, FeatureNames = [''mean'']\<rparr>"
            "\<lparr>K = 1, MaxIter = 0, Tolerance = 0, FeatureNames = []\<rparr>"
            "[\<lparr>Features = [1], Label = [], Original = None\<rparr>]", THEN conjunct1]
    by simp
next
  let ?cfg = "\<lparr>K = 1, MaxIter = 5, Tolerance = 0, FeatureNames = []\<rparr>"
  have same: "K ?cfg = K ?cfg \<and> MaxIter ?cfg = MaxIter ?cfg \<and> Tolerance ?cfg = Tolerance ?cfg"
    by simp
  have feats: "map Features [\<lparr>Features = [1 :: real], Label = ''a'', Original = None\<rparr>,
                             \<lparr>Features = [2], Label = ''b'', Original = None\<rparr>]
             = map Features [\<lparr>Features = [1], Label = [], Original = None\<rparr>,
                             \<lparr>Features = [2], Label = [], Original = None\<rparr>]"
    by simp
  show "map_option (map featuresOnlyCluster)
        (KMeans ?cfg
           [\<lparr>Features = [1], Label = ''a'', Original = None\<rparr>,
            \<lparr>Features = [2], Label = ''b'', Original = None\<rparr>])
     = map_option (map featuresOnlyCluster)
        (KMeans ?cfg
           [\<lparr>Features = [1], Label = [], Original = None\<rparr>,
            \<lparr>Features = [2], Label = [], Original = None\<rparr>])"
    by (rule KMeans_deterministic [THEN conjunct1, rule_format, OF same, THEN conjunct2,
          rule_format, OF feats])
next
  let ?cfg = "\<lparr>K = 2, MaxIter = 10, Tolerance = 0, FeatureNames = []\<rparr>"
  let ?pts = "[\<lparr>Features = [1], Label = [], Original = None\<rparr>,
               \<lparr>Features = [2], Label = [], Original = None\<rparr>,
               \<lparr>Features = [3::real], Label = [], Original = None\<rparr>]"
  have range: "1 \<le> K ?cfg \<and> K ?cfg \<le> int (length ?pts)" by simp
  from KMeans_deterministic [of ?cfg ?cfg ?pts, THEN conjunct2, rule_format, OF range]
  obtain clusters where c: "initializeClusters ?cfg ?pts = Some clusters"
    and len: "length clusters = nat (K ?cfg)"
    and all: "\<forall>i<nat (K ?cfg). Centroid (clusters ! i)
                     = Features (?pts ! nat (int i * int (length ?pts) div K ?cfg))
                   \<and> Points (clusters ! i) = []"
    by blast
  have i0: "Centroid (clusters ! 0) = [1]"
    using all [rule_format, of 0] by simp
  have "nat (int 1 * 3 div 2) = 1" by simp
  then have i1: "Centroid (clusters ! 1) = [2]"
    using all [rule_format, of 1] by simp
  show "\<exists>clusters. initializeClusters ?cfg ?pts = Some clusters \<and> length clusters = 2
         \<and> Centroid (clusters ! 0) = [1] \<and> Centroid (clusters ! 1) = [2]"
    using c len i0 i1 by simp
qed


subsection \<open>The dynamic threshold\<close>

text \<open>
  Claim C9: for every baseline whose assigned points have the dimension of their
  centroid, the dynamic threshold is \<open>sqrt pooledVariance * sensitivityLevel\<close>, where the
  variance of a cluster is the mean squared Euclidean distance of its assigned points
  to its centroid and the pooled variance is the size-weighted mean of the variances of
  the clusters with at least one assigned point; with no assigned point at all the
  threshold is 1. Every baseline that \<^verbatim>\<open>LearnBaseline\<close> registers is of this kind
  (lemmas \<open>reachable_sound\<close> and \<open>wellFormed_uniform_assignedDim\<close>); for another
  cluster list the distance function may read past the end of a centroid.
\<close>

theorem calculateDynamicThreshold_pooled:
  assumes "wellFormed clusters"
  shows "calculateDynamicThreshold cfg clusters =
           Some (if totalAssigned clusters = 0 then 1
                 else sqrt (pooledVariance clusters) * SensitivityLevel cfg)"
  using calculateDynamicThreshold_spec [OF assms] by (simp add: dynamicThreshold_def)

theorem calculateDynamicThreshold_pooled_witness:
  "wellFormed [\<lparr>Centroid = [0, 0],
                Points = [\<lparr>Features = [2, 0], Label = [], Original = None\<rparr>,
                          \<lparr>Features = [0, 2], Label = [], Original = None\<rparr>]\<rparr>,
               \<lparr>Centroid = [9, 9], Points = []\<rparr>]
   \<and> calculateDynamicThreshold
        \<lparr>TrafficSpikeThreshold = 2, ErrorRateThreshold = 1 / 20, LatencyThreshold = 0,
         RetryThreshold = 100, TimeoutThreshold = 10, WindowSize = 10, SensitivityLevel = 3\<rparr>
        [\<lparr>Centroid = [0, 0],
          Points = [\<lparr>Features = [2, 0], Label = [], Original = None\<rparr>,
                    \<lparr>Features = [0, 2], Label = [], Original = None\<rparr>]\<rparr>,
         \<lparr>Centroid = [9, 9], Points = []\<rparr>] = Some 6
   \<and> wellFormed [\<lparr>Centroid = [9, 9], Points = []\<rparr>]
   \<and> calculateDynamicThreshold
        \<lparr>TrafficSpikeThreshold = 2, ErrorRateThreshold = 1 / 20, LatencyThreshold = 0,
         RetryThreshold = 100, TimeoutThreshold = 10, WindowSize = 10, SensitivityLevel = 3\<rparr>
        [\<lparr>Centroid = [9, 9], Points = []\<rparr>] = Some 1"
proof -
  let ?cfg = "\<lparr>TrafficSpikeThreshold = 2, ErrorRateThreshold = 1 / 20, LatencyThreshold = 0,
         RetryThreshold = 100, TimeoutThreshold = 10, WindowSize = 10, SensitivityLevel = 3\<rparr>"
  have w1: "wellFormed [\<lparr>Centroid = [0, 0],
                Points = [\<lparr>Features = [2, 0], Label = [], Original = None\<rparr>,
                          \<lparr>Features = [0, 2], Label = [], Original = None\<rparr>]\<rparr>,
               \<lparr>Centroid = [9, 9], Points = []\<rparr>]"
    by (simp add: wellFormed_def)
  have w2: "wellFormed [\<lparr>Centroid = [9, 9], Points = []\<rparr>]"
    by (simp add: wellFormed_def)
  show ?thesis
    using w1 w2 calculateDynamicThreshold_pooled [OF w1, of ?cfg]
      calculateDynamicThreshold_pooled [OF w2, of ?cfg]
    by (simp add: totalAssigned_def pooledVariance_def weightedVariances_def
        intraClusterVariance_def squaredDistance_def upt_conv_Cons)
qed


subsection \<open>DetectAnomalies and degenerate conditions\<close>

text \<open>
  Claim C10: \<^verbatim>\<open>DetectAnomalies\<close> never fails: for every service name and every input
  sequence the error component of its result is \<^verbatim>\<open>nil\<close>, and all degenerate conditions
  surface only as fewer or zero emitted anomalies. The error component of every result
  is \<^verbatim>\<open>nil\<close> (lemma \<open>DetectAnomalies_error_nil\<close>), and the call returns on every detector
  that calls of \<^verbatim>\<open>LearnBaseline\<close> produce from a new one with a window size that is not
  negative (lemmas \<open>reachable_sound\<close> and \<open>DetectAnomalies_defined\<close>). But one degenerate
  condition surfaces as one more anomaly. With window size 3 and \<open>K = 2\<close>,
  \<^verbatim>\<open>LearnBaseline\<close> on four points extracts one feature vector, too few for the
  clustering, and registers the empty result. On five points of value 0.1 the detector
  without a baseline emits the high-error-rate anomaly alone; the detector with the
  empty baseline emits it and, after it, a behavioral anomaly of infinite severity. The
  missed case is the one of claims C1 and C7.
\<close>

theorem empty_clustering_result_one_more_anomaly:
  "LearnBaseline
     (NewDetector
        \<lparr>TrafficSpikeThreshold = 2, ErrorRateThreshold = 1 / 20, LatencyThreshold = 1000,
         RetryThreshold = 100, TimeoutThreshold = 10, WindowSize = 3, SensitivityLevel = 2\<rparr>
        \<lparr>K = 2, MaxIter = 100, Tolerance = 1 / 100, FeatureNames = []\<rparr>)
     ''svc''
     [\<lparr>Timestamp = 1, Value = 1 / 10, Labels = Map.empty\<rparr>,
      \<lparr>Timestamp = 2, Value = 1 / 10, Labels = Map.empty\<rparr>,
      \<lparr>Timestamp = 3, Value = 1 / 10, Labels = Map.empty\<rparr>,
      \<lparr>Timestamp = 4, Value = 1 / 10, Labels = Map.empty\<rparr>]
     = Some (\<lparr>config =
                \<lparr>TrafficSpikeThreshold = 2, ErrorRateThreshold = 1 / 20, LatencyThreshold = 1000,
                 RetryThreshold = 100, TimeoutThreshold = 10, WindowSize = 3, SensitivityLevel = 2\<rparr>,
              clusteringEngine = \<lparr>K = 2, MaxIter = 100, Tolerance = 1 / 100, FeatureNames = []\<rparr>,
              baselines = [''svc'' \<mapsto> []]\<rparr>, None)
   \<and> DetectAnomalies
        (NewDetector
           \<lparr>TrafficSpikeThreshold = 2, ErrorRateThreshold = 1 / 20, LatencyThreshold = 1000,
            RetryThreshold = 100, TimeoutThreshold = 10, WindowSize = 3, SensitivityLevel = 2\<rparr>
           \<lparr>K = 2, MaxIter = 100, Tolerance = 1 / 100, FeatureNames = []\<rparr>)
        ''svc''
        [\<lparr>Timestamp = 5, Value = 1 / 10, Labels = Map.empty\<rparr>,
         \<lparr>Timestamp = 6, Value = 1 / 10, Labels = Map.empty\<rparr>,
         \<lparr>Timestamp = 7, Value = 1 / 10, Labels = Map.empty\<rparr>,
         \<lparr>Timestamp = 8, Value = 1 / 10, Labels = Map.empty\<rparr>,
         \<lparr>Timestamp = 9, Value = 1 / 10, Labels = Map.empty\<rparr>] 10
     = Some ([\<lparr>Type = ''error_rate_high'', ServiceName = ''svc'', Namespace = [],
               Severity = Num 2,
               Description = (''High error rate: %.2f%%'', Num 10),
               AnomalyTimestamp = 9,
               Metrics = [''error_rate'' \<mapsto> Num (1 / 10)],
               AnomalyLabels = Map.empty\<rparr>], None)
   \<and> DetectAnomalies
        \<lparr>config =
           \<lparr>TrafficSpikeThreshold = 2, ErrorRateThreshold = 1 / 20, LatencyThreshold = 1000,
            RetryThreshold = 100, TimeoutThreshold = 10, WindowSize = 3, SensitivityLevel = 2\<rparr>,
         clusteringEngine = \<lparr>K = 2, MaxIter = 100, Tolerance = 1 / 100, FeatureNames = []\<rparr>,
         baselines = [''svc'' \<mapsto> []]\<rparr>
        ''svc''
        [\<lparr>Timestamp = 5, Value = 1 / 10, Labels = Map.empty\<rparr>,
         \<lparr>Timestamp = 6, Value = 1 / 10, Labels = Map.empty\<rparr>,
         \<lparr>Timestamp = 7, Value = 1 / 10, Labels = Map.empty\<rparr>,
         \<lparr>Timestamp = 8, Value = 1 / 10, Labels = Map.empty\<rparr>,
         \<lparr>Timestamp = 9, Value = 1 / 10, Labels = Map.empty\<rparr>] 10
     = Some ([\<lparr>Type = ''error_rate_high'', ServiceName = ''svc'', Namespace = [],
               Severity = Num 2,
               Description = (''High error rate: %.2f%%'', Num 10),
               AnomalyTimestamp = 9,
               Metrics = [''error_rate'' \<mapsto> Num (1 / 10)],
               AnomalyLabels = Map.empty\<rparr>,
              \<lparr>Type = ''behavioral_anomaly'', ServiceName = ''svc'', Namespace = [],
               Severity = PosInf,
               Description = (''Behavioral anomaly detected (distance: %.2f)'', PosInf),
               AnomalyTimestamp = 10,
               Metrics = [''anomaly_distance'' \<mapsto> PosInf],
               AnomalyLabels = Map.empty\<rparr>], None)"
proof -
  let ?cfg = "\<lparr>TrafficSpikeThreshold = 2, ErrorRateThreshold = 1 / 20, LatencyThreshold = 1000,
            RetryThreshold = 100, TimeoutThreshold = 10, WindowSize = 3, SensitivityLevel = 2\<rparr>"
  let ?engine = "\<lparr>K = 2, MaxIter = 100, Tolerance = 1 / 100, FeatureNames = []\<rparr>"
  let ?d0 = "NewDetector ?cfg ?engine"
  let ?d1 = "\<lparr>config = ?cfg, clusteringEngine = ?engine, baselines = [''svc'' \<mapsto> []]\<rparr>"
  let ?p4 = "[\<lparr>Timestamp = 1, Value = 1 / 10, Labels = Map.empty\<rparr>,
      \<lparr>Timestamp = 2, Value = 1 / 10, Labels = Map.empty\<rparr>,
      \<lparr>Timestamp = 3, Value = 1 / 10, Labels = Map.empty\<rparr>,
      \<lparr>Timestamp = 4, Value = 1 / 10, Labels = Map.empty\<rparr>]"
  let ?p5 = "[\<lparr>Timestamp = 5, Value = 1 / 10, Labels = Map.empty\<rparr>,
         \<lparr>Timestamp = 6, Value = 1 / 10, Labels = Map.empty\<rparr>,
         \<lparr>Timestamp = 7, Value = 1 / 10, Labels = Map.empty\<rparr>,
         \<lparr>Timestamp = 8, Value = 1 / 10, Labels = Map.empty\<rparr>,
         \<lparr>Timestamp = 9, Value = 1 / 10, Labels = Map.empty\<rparr>]"
  let ?rate = "\<lparr>Type = ''error_rate_high'', ServiceName = ''svc'', Namespace = [],
               Severity = Num 2,
               Description = (''High error rate: %.2f%%'', Num 10),
               AnomalyTimestamp = 9,
               Metrics = [''error_rate'' \<mapsto> Num (1 / 10)],
               AnomalyLabels = Map.empty\<rparr>"
  have "LearnBaseline ?d0 ''svc'' ?p4
          = Some (?d0\<lparr>baselines := (baselines ?d0)(''svc'' \<mapsto> [])\<rparr>, None)"
    by (rule LearnBaseline_few_features) (simp_all add: NewDetector_def)
  then have l: "LearnBaseline ?d0 ''svc'' ?p4 = Some (?d1, None)"
    by (simp add: NewDetector_def)
  have static: "detectStaticAnomalies ?cfg ''svc'' ?p5 = [?rate]"
    by (simp add: detectStaticAnomalies_def isTrafficSpike_def isHighErrorRate_def
        detectorMean_def errorRateAnomaly_def ErrorRateHigh_def Let_def)
  have n: "DetectAnomalies ?d0 ''svc'' ?p5 10 = Some ([?rate], None)"
    using static by (simp add: DetectAnomalies_def NewDetector_def)
  have b: "baselines ?d1 ''svc'' = Some []" by simp
  have "DetectAnomalies ?d1 ''svc'' ?p5 10
          = Some (detectStaticAnomalies (config ?d1) ''svc'' ?p5
                    @ [behavioralAnomaly ''svc'' PosInf 1 10], None)"
    by (rule DetectAnomalies_empty_baseline [OF b]) simp_all
  then have e: "DetectAnomalies ?d1 ''svc'' ?p5 10
          = Some ([?rate,
              \<lparr>Type = ''behavioral_anomaly'', ServiceName = ''svc'', Namespace = [],
               Severity = PosInf,
               Description = (''Behavioral anomaly detected (distance: %.2f)'', PosInf),
               AnomalyTimestamp = 10,
               Metrics = [''anomaly_distance'' \<mapsto> PosInf],
               AnomalyLabels = Map.empty\<rparr>], None)"
    using static by (simp add: behavioralAnomaly_def)
  show ?thesis
    using l n e by (intro conjI)
qed

subsection \<open>The high-error-rate rule\<close>

text \<open>
  Claim C3, as stated: for every non-empty input whose latest value exceeds
  \<open>errorRateThreshold\<close>, a detection call emits a high-error-rate anomaly. For an input
  of exactly one point \<^verbatim>\<open>detectStaticAnomalies\<close> returns at its guard
  \<^verbatim>\<open>len(points) < 2\<close>: with the value 1 and the threshold 0.05 nothing is emitted.
\<close>

theorem single_point_no_error_rate_anomaly:
  "DetectAnomalies (NewDetector
      \<lparr>TrafficSpikeThreshold = 2, ErrorRateThreshold = 1 / 20, LatencyThreshold = 1000,
       RetryThreshold = 100, TimeoutThreshold = 10, WindowSize = 10, SensitivityLevel = 2\<rparr>
      \<lparr>K = 3, MaxIter = 100, Tolerance = 1 / 100, FeatureNames = []\<rparr>)
     ''svc'' [\<lparr>Timestamp = 7, Value = 1, Labels = Map.empty\<rparr>] 8
   = Some ([], None)"
  by (simp add: DetectAnomalies_def NewDetector_def detectStaticAnomalies_def)

text \<open>
  Claim C3, amended: for every input sequence of at least 2 points (and a detector as
  in C10), a detection call returns; when the latest point's value exceeds
  \<open>errorRateThreshold\<close> it emits exactly one high-error-rate anomaly, whose severity is
  \<open>latestValue / errorRateThreshold\<close>, and when the latest value does not exceed the
  threshold it emits no such anomaly.
\<close>

theorem high_error_rate_rule:
  assumes "2 \<le> length points" and "reachable d" and "0 \<le> WindowSize (config d)"
  shows "\<exists>anomalies.
           DetectAnomalies d serviceName points now = Some (anomalies, None)
         \<and> filter (\<lambda>a. Type a = ErrorRateHigh) anomalies
             = (if Value (last points) > ErrorRateThreshold (config d)
                then [errorRateAnomaly (config d) serviceName points] else [])
         \<and> Severity (errorRateAnomaly (config d) serviceName points)
             = div64 (Num (Value (last points))) (ErrorRateThreshold (config d))
         \<and> (ErrorRateThreshold (config d) \<noteq> 0 \<longrightarrow>
              Severity (errorRateAnomaly (config d) serviceName points)
                = Num (Value (last points) / ErrorRateThreshold (config d)))"
proof -
  from DetectAnomalies_defined [OF reachable_sound [OF assms(2)] assms(3)]
  obtain anomalies where a: "DetectAnomalies d serviceName points now = Some (anomalies, None)"
    by blast
  have ne: "points \<noteq> []" using assms(1) by auto
  then have "points ! (length points - 1) = last points"
    by (simp add: last_conv_nth)
  then have "Severity (errorRateAnomaly (config d) serviceName points)
             = div64 (Num (Value (last points))) (ErrorRateThreshold (config d))"
    by (simp add: errorRateAnomaly_def Let_def)
  then show ?thesis
    using a DetectAnomalies_error_rate [OF a assms(1)] by auto
qed

theorem high_error_rate_rule_witness:
  "(\<exists>anomalies.
      DetectAnomalies (NewDetector
          \<lparr>TrafficSpikeThreshold = 2, ErrorRateThreshold = 1 / 20, LatencyThreshold = 1000,
           RetryThreshold = 100, TimeoutThreshold = 10, WindowSize = 10, SensitivityLevel = 2\<rparr>
          \<lparr>K = 3, MaxIter = 100, Tolerance = 1 / 100, FeatureNames = []\<rparr>)
        ''svc'' [\<lparr>Timestamp = 7, Value = 1 / 100, Labels = Map.empty\<rparr>,
                 \<lparr>Timestamp = 8, Value = 1 / 10, Labels = Map.empty\<rparr>] 9
        = Some (anomalies, None)
      \<and> map Severity (filter (\<lambda>a. Type a = ErrorRateHigh) anomalies) = [Num 2])"
proof -
  let ?d = "NewDetector
      \<lparr>TrafficSpikeThreshold = 2, ErrorRateThreshold = 1 / 20, LatencyThreshold = 1000,
       RetryThreshold = 100, TimeoutThreshold = 10, WindowSize = 10, SensitivityLevel = 2\<rparr>
      \<lparr>K = 3, MaxIter = 100, Tolerance = 1 / 100, FeatureNames = []\<rparr>"
  let ?pts = "[\<lparr>Timestamp = 7, Value = 1 / 100, Labels = Map.empty\<rparr>,
                 \<lparr>Timestamp = 8, Value = 1 / 10, Labels = Map.empty\<rparr>]"
  have l: "2 \<le> length ?pts" by simp
  have r: "reachable ?d" by (rule reachable.new)
  have w: "0 \<le> WindowSize (config ?d)" by (simp add: NewDetector_def)
  from high_error_rate_rule [OF l r w, of "''svc''" 9]
  show ?thesis
    by (auto simp: NewDetector_def)
qed


subsection \<open>Learning from too few feature vectors\<close>

text \<open>
  Claim C1 says that when \<^verbatim>\<open>LearnBaseline\<close> passes its window-size check but extracts
  fewer feature vectors than \<open>K\<close>, later \<^verbatim>\<open>DetectAnomalies\<close> calls for the service skip
  the distance-to-baseline path, emit no behavioral anomaly, and a baseline learned before is kept. The
  code does otherwise. With window size 2 and \<open>K = 1\<close>: a first \<^verbatim>\<open>LearnBaseline\<close> on
  three points registers one cluster; a second on two points (no feature vector)
  returns no error and replaces that baseline by the empty result of \<^verbatim>\<open>KMeans\<close>; a
  following \<^verbatim>\<open>DetectAnomalies\<close> on four points finds the key present, scans no
  centroid, keeps the distance \<^verbatim>\<open>math.Inf(1)\<close>, compares it with the threshold 1 and
  emits a behavioral anomaly of infinite severity.
\<close>

theorem empty_baseline_infinite_anomaly:
  "\<exists>d1 cs d2.
     LearnBaseline
       (NewDetector
          \<lparr>TrafficSpikeThreshold = 2, ErrorRateThreshold = 5, LatencyThreshold = 1000,
           RetryThreshold = 100, TimeoutThreshold = 10, WindowSize = 2, SensitivityLevel = 2\<rparr>
          \<lparr>K = 1, MaxIter = 100, Tolerance = 1 / 100, FeatureNames = []\<rparr>)
       ''svc''
       [\<lparr>Timestamp = 1, Value = 1, Labels = Map.empty\<rparr>,
        \<lparr>Timestamp = 2, Value = 1, Labels = Map.empty\<rparr>,
        \<lparr>Timestamp = 3, Value = 1, Labels = Map.empty\<rparr>] = Some (d1, None)
   \<and> baselines d1 ''svc'' = Some cs \<and> length cs = 1
   \<and> LearnBaseline d1 ''svc''
       [\<lparr>Timestamp = 4, Value = 1, Labels = Map.empty\<rparr>,
        \<lparr>Timestamp = 5, Value = 1, Labels = Map.empty\<rparr>] = Some (d2, None)
   \<and> baselines d2 ''svc'' = Some []
   \<and> DetectAnomalies d2 ''svc''
       [\<lparr>Timestamp = 6, Value = 1, Labels = Map.empty\<rparr>,
        \<lparr>Timestamp = 7, Value = 1, Labels = Map.empty\<rparr>,
        \<lparr>Timestamp = 8, Value = 1, Labels = Map.empty\<rparr>,
        \<lparr>Timestamp = 9, Value = 1, Labels = Map.empty\<rparr>] 10
     = Some ([\<lparr>Type = ''behavioral_anomaly'', ServiceName = ''svc'', Namespace = [],
               Severity = PosInf,
               Description = (''Behavioral anomaly detected (distance: %.2f)'', PosInf),
               AnomalyTimestamp = 10,
               Metrics = [''anomaly_distance'' \<mapsto> PosInf],
               AnomalyLabels = Map.empty\<rparr>], None)"
proof -
  let ?cfg = "\<lparr>TrafficSpikeThreshold = 2, ErrorRateThreshold = 5, LatencyThreshold = 1000,
           RetryThreshold = 100, TimeoutThreshold = 10, WindowSize = 2, SensitivityLevel = 2\<rparr>"
  let ?d0 = "NewDetector ?cfg \<lparr>K = 1, MaxIter = 100, Tolerance = 1 / 100, FeatureNames = []\<rparr>"
  let ?p3 = "[\<lparr>Timestamp = 1, Value = 1, Labels = Map.empty\<rparr>,
        \<lparr>Timestamp = 2, Value = 1, Labels = Map.empty\<rparr>,
        \<lparr>Timestamp = 3, Value = 1, Labels = Map.empty\<rparr>]"
  let ?p2 = "[\<lparr>Timestamp = 4, Value = 1, Labels = Map.empty\<rparr>,
        \<lparr>Timestamp = 5, Value = 1, Labels = Map.empty\<rparr>]"
  let ?p4 = "[\<lparr>Timestamp = 6, Value = 1, Labels = Map.empty\<rparr>,
        \<lparr>Timestamp = 7, Value = 1, Labels = Map.empty\<rparr>,
        \<lparr>Timestamp = 8, Value = 1, Labels = Map.empty\<rparr>,
        \<lparr>Timestamp = 9, Value = 1, Labels = Map.empty\<rparr>]"
  have "\<exists>cs. LearnBaseline ?d0 ''svc'' ?p3
              = Some (?d0\<lparr>baselines := (baselines ?d0)(''svc'' \<mapsto> cs)\<rparr>, None)
            \<and> length cs = nat (K (clusteringEngine ?d0))"
    by (rule LearnBaseline_enough_features) (simp_all add: NewDetector_def)
  then obtain cs where l1: "LearnBaseline ?d0 ''svc'' ?p3
              = Some (?d0\<lparr>baselines := (baselines ?d0)(''svc'' \<mapsto> cs)\<rparr>, None)"
    and len: "length cs = 1"
    by (auto simp: NewDetector_def)
  let ?d1 = "?d0\<lparr>baselines := (baselines ?d0)(''svc'' \<mapsto> cs)\<rparr>"
  let ?d2 = "?d1\<lparr>baselines := (baselines ?d1)(''svc'' \<mapsto> [])\<rparr>"
  have l2: "LearnBaseline ?d1 ''svc'' ?p2 = Some (?d2, None)"
    by (rule LearnBaseline_few_features) (simp_all add: NewDetector_def)
  have b2: "baselines ?d2 ''svc'' = Some []" by simp
  have cfg2: "config ?d2 = ?cfg" by (simp add: NewDetector_def)
  have static: "detectStaticAnomalies ?cfg ''svc'' ?p4 = []"
    by (simp add: detectStaticAnomalies_def isTrafficSpike_def isHighErrorRate_def
        detectorMean_def Let_def)
  have "DetectAnomalies ?d2 ''svc'' ?p4 10
          = Some (detectStaticAnomalies (config ?d2) ''svc'' ?p4
                    @ [behavioralAnomaly ''svc'' PosInf 1 10], None)"
    by (rule DetectAnomalies_empty_baseline [OF b2]) (simp_all add: NewDetector_def)
  then have det: "DetectAnomalies ?d2 ''svc'' ?p4 10
          = Some ([\<lparr>Type = ''behavioral_anomaly'', ServiceName = ''svc'', Namespace = [],
               Severity = PosInf,
               Description = (''Behavioral anomaly detected (distance: %.2f)'', PosInf),
               AnomalyTimestamp = 10,
               Metrics = [''anomaly_distance'' \<mapsto> PosInf],
               AnomalyLabels = Map.empty\<rparr>], None)"
    unfolding cfg2 static by (simp add: behavioralAnomaly_def)
  have b1: "baselines ?d1 ''svc'' = Some cs" by simp
  show ?thesis
    using l1 b1 len l2 b2 det by blast
qed

end
